theory Spec2Isabelle
  imports Main "HOL-Library.AList" "HOL-Library.Sublist"
begin

section \<open>The two packaging scripts of gemini-xo\<close>

text \<open>
  The repository's sources are two Node.js scripts, \<^verbatim>\<open>scripts/build-single-file.js\<close> and
  \<^verbatim>\<open>scripts/build-standalone.js\<close>. Both talk to the world only through the file system,
  child processes, the console and the process exit code. The embedding makes these explicit:
  a script is a function from a world (the file tree below the repository root, and the
  chronological trace of every call the script makes to the outside) to a result and a new
  world. The behaviour of child processes, the host platform and the location of the
  repository are parameters (the environment).
\<close>

subsection \<open>JavaScript values used by the scripts\<close>

text \<open>
  Reading \<^verbatim>\<open>obj[key]\<close> on an object literal finds the object's own property, or else a
  property inherited from \<^verbatim>\<open>Object.prototype\<close> (a function or object, hence truthy and not
  a string), or else \<^verbatim>\<open>undefined\<close>.
\<close>

datatype 'a jsprop = Own 'a | Proto | Undefined

definition object_prototype_keys :: "string list" where
  "object_prototype_keys =
     [''constructor'', ''__defineGetter__'', ''__defineSetter__'', ''hasOwnProperty'',
      ''__lookupGetter__'', ''__lookupSetter__'', ''isPrototypeOf'', ''propertyIsEnumerable'',
      ''toString'', ''valueOf'', ''__proto__'', ''toLocaleString'']"

definition js_get :: "(string \<times> 'a) list \<Rightarrow> string \<Rightarrow> 'a jsprop" where
  "js_get obj k =
     (case map_of obj k of
        Some v \<Rightarrow> Own v
      | None \<Rightarrow> if k \<in> set object_prototype_keys then Proto else Undefined)"

text \<open>Truthiness of a looked-up string, and of a looked-up object.\<close>

fun truthy_str :: "string jsprop \<Rightarrow> bool" where
  "truthy_str (Own s) = (s \<noteq> [])"
| "truthy_str Proto = True"
| "truthy_str Undefined = False"

fun truthy_obj :: "'a jsprop \<Rightarrow> bool" where
  "truthy_obj (Own v) = True"
| "truthy_obj Proto = True"
| "truthy_obj Undefined = False"

text \<open>\<^verbatim>\<open>Object.keys\<close>: the own keys in insertion order.\<close>

definition object_keys :: "(string \<times> 'a) list \<Rightarrow> string list" where
  "object_keys obj = map fst obj"

text \<open>\<^verbatim>\<open>Array.prototype.join\<close>, \<^verbatim>\<open>startsWith\<close>, \<^verbatim>\<open>endsWith\<close>, \<^verbatim>\<open>trim\<close> (on ASCII white space)
  and the decimal rendering of a number in a template string.\<close>

fun join_with :: "string \<Rightarrow> string list \<Rightarrow> string" where
  "join_with sep [] = []"
| "join_with sep [x] = x"
| "join_with sep (x # y # ys) = x @ sep @ join_with sep (y # ys)"

definition startsWith :: "string \<Rightarrow> string \<Rightarrow> bool" where
  "startsWith s pre = prefix pre s"

definition endsWith :: "string \<Rightarrow> string \<Rightarrow> bool" where
  "endsWith s suf = suffix suf s"

definition js_space :: "char \<Rightarrow> bool" where
  "js_space c = (c \<in> set [CHR 0x09, CHR 0x0A, CHR 0x0B, CHR 0x0C, CHR 0x0D, CHR 0x20])"

definition trim :: "string \<Rightarrow> string" where
  "trim s = rev (dropWhile js_space (rev (dropWhile js_space s)))"

fun show_nat :: "nat \<Rightarrow> string" where
  "show_nat n =
     (if n < 10 then [''0123456789'' ! n]
      else show_nat (n div 10) @ [''0123456789'' ! (n mod 10)])"

fun show_status :: "nat option \<Rightarrow> string" where
  "show_status None = ''null''"
| "show_status (Some n) = show_nat n"

subsection \<open>Paths\<close>

text \<open>
  A path is the list of its components below \<^verbatim>\<open>rootDir\<close> (the parent of the directory that
  holds the scripts). \<^verbatim>\<open>path.join\<close> appends the segments of a string; the strings the scripts
  join are constants, table keys, property names and directory entries, none of which has a
  \<^verbatim>\<open>.\<close> or \<^verbatim>\<open>..\<close> segment, so that normalisation is not modelled.
\<close>

type_synonym path = "string list"

fun split_on :: "char \<Rightarrow> string \<Rightarrow> string list" where
  "split_on c [] = [[]]"
| "split_on c (x # xs) =
     (if x = c then [] # split_on c xs
      else (case split_on c xs of [] \<Rightarrow> [[x]] | y # ys \<Rightarrow> (x # y) # ys))"

definition segments :: "string \<Rightarrow> string list" where
  "segments s = filter (\<lambda>x. x \<noteq> []) (split_on (CHR ''/'') s)"

definition join :: "path \<Rightarrow> string \<Rightarrow> path" where
  "join p s = p @ segments s"

definition rootDir :: path where
  "rootDir = []"

text \<open>A path as the script prints it: below the absolute name of \<^verbatim>\<open>rootDir\<close>.\<close>

definition path_str :: "string \<Rightarrow> path \<Rightarrow> string" where
  "path_str root p = root @ concat (map (\<lambda>c. ''/'' @ c) p)"

subsection \<open>The world\<close>

text \<open>
  The file tree is an association list from paths to nodes, read through \<open>map_of\<close>; the
  order of the list is the order in which \<^verbatim>\<open>readdirSync\<close> reports entries. A file has a
  content and permission bits. \<^verbatim>\<open>rootDir\<close> itself always is a directory.
\<close>

datatype node = Dir | File string nat

type_synonym filesys = "(path \<times> node) list"

definition node_at :: "filesys \<Rightarrow> path \<Rightarrow> node option" where
  "node_at fs p = (if p = [] then Some Dir else map_of fs p)"

fun is_file :: "node option \<Rightarrow> bool" where
  "is_file (Some (File c m)) = True"
| "is_file other = False"

text \<open>The errors a call can throw.\<close>

datatype errno = ENOENT | ENOTDIR | EEXIST | EISDIR

datatype error =
    Error string
  | SystemError errno string path
  | TypeError

fun errno_name :: "errno \<Rightarrow> string" where
  "errno_name ENOENT = ''ENOENT''"
| "errno_name ENOTDIR = ''ENOTDIR''"
| "errno_name EEXIST = ''EEXIST''"
| "errno_name EISDIR = ''EISDIR''"

text \<open>\<^verbatim>\<open>err.message\<close>; for the errors raised by Node itself the text is abbreviated.\<close>

fun message :: "string \<Rightarrow> error \<Rightarrow> string" where
  "message root (Error m) = m"
| "message root (SystemError c call p) =
     errno_name c @ '': '' @ call @ '' '' @ path_str root p"
| "message root TypeError = ''The path argument must be of type string''"

text \<open>
  Every call to the outside is recorded, in order, when it is made. \<^verbatim>\<open>console.error\<close> with a
  label and an \<^verbatim>\<open>Error\<close> object prints Node's rendering of the object (its stack), which is
  recorded as the object itself.
\<close>

datatype event =
    ConsoleLog string
  | ConsoleError string
  | ConsoleWarn string
  | ConsoleErrorObject string error
  | SpawnSync string "string list"
  | ExistsSync path
  | MkdirSync path
  | RmSync path
  | CopyFileSync path path
  | ReaddirSync path
  | WriteFileSync path

record world =
  files :: filesys
  trace :: "event list"

text \<open>
  The result of \<^verbatim>\<open>spawnSync\<close>: the exit status (\<^verbatim>\<open>null\<close> when the child could not be started or
  was killed) and the captured standard output. What a child does to the file tree is up to
  the environment.
\<close>

record spawn_result =
  status :: "nat option"
  stdout :: string

record env =
  process_platform :: string
  process_arch :: string
  root_name :: string
  child :: "string \<Rightarrow> string list \<Rightarrow> filesys \<Rightarrow> spawn_result \<times> filesys"

subsection \<open>Results: return, throw, exit\<close>

datatype 'a result = Ok 'a | Throw error | Exit nat

type_synonym 'a prog = "world \<Rightarrow> 'a result \<times> world"

definition ret :: "'a \<Rightarrow> 'a prog" where
  "ret x w = (Ok x, w)"

definition throw :: "error \<Rightarrow> 'a prog" where
  "throw e w = (Throw e, w)"

definition process_exit :: "nat \<Rightarrow> 'a prog" where
  "process_exit c w = (Exit c, w)"

definition bind :: "'a prog \<Rightarrow> ('a \<Rightarrow> 'b prog) \<Rightarrow> 'b prog" where
  "bind m f w =
     (case m w of
        (Ok x, w') \<Rightarrow> f x w'
      | (Throw e, w') \<Rightarrow> (Throw e, w')
      | (Exit c, w') \<Rightarrow> (Exit c, w'))"

definition seq :: "'a prog \<Rightarrow> 'b prog \<Rightarrow> 'b prog" where
  "seq m n = bind m (\<lambda>x. n)"

text \<open>\<^verbatim>\<open>try { m } catch (e) { h e }\<close>: a thrown error is handled, an exit is not.\<close>

definition try_catch :: "'a prog \<Rightarrow> (error \<Rightarrow> 'a prog) \<Rightarrow> 'a prog" where
  "try_catch m h w =
     (case m w of
        (Throw e, w') \<Rightarrow> h e w'
      | other \<Rightarrow> other)"

text \<open>\<^verbatim>\<open>for (const x of xs) { body x }\<close>\<close>

fun for_each :: "'a list \<Rightarrow> ('a \<Rightarrow> unit prog) \<Rightarrow> unit prog" where
  "for_each [] body = ret ()"
| "for_each (x # xs) body = seq (body x) (for_each xs body)"

text \<open>
  The exit code of the process: 0 when the script runs to its end, the argument of
  \<^verbatim>\<open>process.exit\<close>, and 1 when an exception is not caught (Node's uncaught-exception code).
\<close>

fun exit_code :: "'a result \<Rightarrow> nat" where
  "exit_code (Ok x) = 0"
| "exit_code (Throw e) = 1"
| "exit_code (Exit c) = c"

subsection \<open>Console, child processes and file-system calls\<close>

definition emit :: "event \<Rightarrow> unit prog" where
  "emit e w = (Ok (), w\<lparr>trace := trace w @ [e]\<rparr>)"

definition console_log :: "string \<Rightarrow> unit prog" where
  "console_log s = emit (ConsoleLog s)"

definition console_error :: "string \<Rightarrow> unit prog" where
  "console_error s = emit (ConsoleError s)"

definition console_warn :: "string \<Rightarrow> unit prog" where
  "console_warn s = emit (ConsoleWarn s)"

definition console_error_object :: "string \<Rightarrow> error \<Rightarrow> unit prog" where
  "console_error_object label err = emit (ConsoleErrorObject label err)"

definition spawnSync :: "env \<Rightarrow> string \<Rightarrow> string list \<Rightarrow> spawn_result prog" where
  "spawnSync e command args =
     seq (emit (SpawnSync command args))
       (\<lambda>w. case child e command args (files w) of
               (r, fs') \<Rightarrow> (Ok r, w\<lparr>files := fs'\<rparr>))"

definition existsSync :: "path \<Rightarrow> bool prog" where
  "existsSync p =
     seq (emit (ExistsSync p)) (\<lambda>w. (Ok (node_at (files w) p \<noteq> None), w))"

text \<open>
  \<^verbatim>\<open>rmSync(p, { recursive: true })\<close> removes the node and everything below it, and throws
  when there is no such node (the scripts do not pass \<^verbatim>\<open>force\<close>).
\<close>

definition rmSync :: "path \<Rightarrow> unit prog" where
  "rmSync p =
     seq (emit (RmSync p))
       (\<lambda>w. if node_at (files w) p = None then (Throw (SystemError ENOENT ''rm'' p), w)
            else (Ok (), w\<lparr>files := filter (\<lambda>(q, n). \<not> prefix p q) (files w)\<rparr>))"

text \<open>
  \<^verbatim>\<open>mkdirSync(p, { recursive: true })\<close> creates the directory and its missing ancestors; an
  existing directory is no error; a file at the path or at an ancestor is.
\<close>

definition ancestors_and_self :: "path \<Rightarrow> path list" where
  "ancestors_and_self p = map (\<lambda>n. take n p) [1..<Suc (length p)]"

definition add_dir :: "filesys \<Rightarrow> path \<Rightarrow> filesys" where
  "add_dir fs q = (if node_at fs q = None then fs @ [(q, Dir)] else fs)"

definition mkdirSync :: "path \<Rightarrow> unit prog" where
  "mkdirSync p =
     seq (emit (MkdirSync p))
       (\<lambda>w. if is_file (node_at (files w) p) then (Throw (SystemError EEXIST ''mkdir'' p), w)
            else if list_ex (\<lambda>q. is_file (node_at (files w) q)) (ancestors_and_self p)
            then (Throw (SystemError ENOTDIR ''mkdir'' p), w)
            else (Ok (), w\<lparr>files := foldl add_dir (files w) (ancestors_and_self p)\<rparr>))"

text \<open>
  Opening \<open>p\<close> for writing needs the parent to be a directory and \<open>p\<close> not to be one.
  A call that fails before the file is opened leaves the file tree as it was.
\<close>

definition write_check :: "filesys \<Rightarrow> string \<Rightarrow> path \<Rightarrow> error option" where
  "write_check fs call p =
     (case node_at fs (butlast p) of
        None \<Rightarrow> Some (SystemError ENOENT call p)
      | Some (File c m) \<Rightarrow> Some (SystemError ENOTDIR call p)
      | Some Dir \<Rightarrow>
          if p = [] \<or> node_at fs p = Some Dir then Some (SystemError EISDIR call p)
          else None)"

text \<open>
  \<^verbatim>\<open>copyFileSync(src, dst)\<close> opens the source, then opens the destination for writing
  (creating or truncating it), then copies; the destination gets the content and the mode of
  the source. A source that does not exist cannot be opened. A source that is a directory can
  be opened but not read: the copy fails after the destination was opened, and Node then
  removes the destination, whether it existed before or not.
\<close>

definition copyFileSync :: "path \<Rightarrow> path \<Rightarrow> unit prog" where
  "copyFileSync src dst =
     seq (emit (CopyFileSync src dst))
       (\<lambda>w. case node_at (files w) src of
               None \<Rightarrow> (Throw (SystemError ENOENT ''copyfile'' src), w)
             | Some Dir \<Rightarrow>
                 (case write_check (files w) ''copyfile'' dst of
                    Some err \<Rightarrow> (Throw err, w)
                  | None \<Rightarrow>
                      (Throw (SystemError EISDIR ''copyfile'' src),
                       w\<lparr>files := AList.delete dst (files w)\<rparr>))
             | Some (File c m) \<Rightarrow>
                 (case write_check (files w) ''copyfile'' dst of
                    Some err \<Rightarrow> (Throw err, w)
                  | None \<Rightarrow> (Ok (), w\<lparr>files := AList.update dst (File c m) (files w)\<rparr>)))"

text \<open>
  \<^verbatim>\<open>writeFileSync(p, content, { mode })\<close>: the mode is that of \<^verbatim>\<open>open(2)\<close>, it applies when the
  file is created and an existing file keeps its own (the umask is not modelled).
\<close>

definition writeFileSync :: "path \<Rightarrow> string \<Rightarrow> nat \<Rightarrow> unit prog" where
  "writeFileSync p content mode =
     seq (emit (WriteFileSync p))
       (\<lambda>w. case write_check (files w) ''open'' p of
               Some err \<Rightarrow> (Throw err, w)
             | None \<Rightarrow>
                 (Ok (), w\<lparr>files := AList.update p
                    (case node_at (files w) p of
                       Some (File c m) \<Rightarrow> File content m
                     | other \<Rightarrow> File content mode) (files w)\<rparr>))"

definition default_mode :: nat where
  "default_mode = 438"

text \<open>\<^verbatim>\<open>readdirSync(p)\<close>: the names of the entries directly below a directory.\<close>

definition entries :: "filesys \<Rightarrow> path \<Rightarrow> string list" where
  "entries fs p = remdups (map (\<lambda>(q, n). last q) (filter (\<lambda>(q, n). q \<noteq> [] \<and> butlast q = p) fs))"

definition readdirSync :: "path \<Rightarrow> string list prog" where
  "readdirSync p =
     seq (emit (ReaddirSync p))
       (\<lambda>w. case node_at (files w) p of
               None \<Rightarrow> (Throw (SystemError ENOENT ''scandir'' p), w)
             | Some (File c m) \<Rightarrow> (Throw (SystemError ENOTDIR ''scandir'' p), w)
             | Some Dir \<Rightarrow> (Ok (entries (files w) p), w))"

section \<open>scripts/build-single-file.js\<close>

definition distDir_single :: path where
  "distDir_single = join rootDir ''dist-single''"

definition bundleDir :: path where
  "bundleDir = join rootDir ''bundle''"

definition targets :: "(string \<times> string) list" where
  "targets =
     [(''linux-x64'', ''bun-linux-x64''),
      (''linux-arm64'', ''bun-linux-arm64''),
      (''mac-x64'', ''bun-darwin-x64''),
      (''mac-arm64'', ''bun-darwin-arm64''),
      (''win-x64'', ''bun-windows-x64'')]"

definition outputNames :: "(string \<times> string) list" where
  "outputNames =
     [(''linux-x64'', ''gsharp''),
      (''linux-arm64'', ''gsharp''),
      (''mac-x64'', ''gsharp''),
      (''mac-arm64'', ''gsharp''),
      (''win-x64'', ''gsharp.exe'')]"

text \<open>\<^verbatim>\<open>run\<close> (lines 48-59): a failing command throws.\<close>

definition run_single :: "env \<Rightarrow> string \<Rightarrow> string list \<Rightarrow> bool \<Rightarrow> spawn_result prog" where
  "run_single e command args allowFailure =
     seq (console_log (''> '' @ command @ '' '' @ join_with '' '' args))
       (bind (spawnSync e command args) (\<lambda>result.
          if status result \<noteq> Some 0 \<and> \<not> allowFailure
          then throw (Error (''Command failed: '' @ command @ '' '' @ join_with '' '' args))
          else ret result))"

text \<open>\<^verbatim>\<open>getCurrentPlatform\<close> (lines 61-67).\<close>

definition getCurrentPlatform_single :: "env \<Rightarrow> string" where
  "getCurrentPlatform_single e =
     (if process_platform e = ''win32'' then ''win-x64''
      else if process_platform e = ''darwin''
      then (if process_arch e = ''arm64'' then ''mac-arm64'' else ''mac-x64'')
      else (if process_arch e = ''arm64'' then ''linux-arm64'' else ''linux-x64''))"

text \<open>\<^verbatim>\<open>ensureBundle\<close> (lines 69-76).\<close>

definition ensureBundle_single :: "env \<Rightarrow> path prog" where
  "ensureBundle_single e =
     (let bundleFile = join bundleDir ''gemini.js'' in
      seq (bind (existsSync bundleFile) (\<lambda>found.
             if \<not> found
             then seq (console_log ''Bundle not found, building...'')
                    (bind (run_single e ''npm'' [''run'', ''bundle''] False) (\<lambda>r. ret ()))
             else ret ()))
        (ret bundleFile))"

text \<open>\<^verbatim>\<open>copyNativeAddons\<close> (lines 107-131). The table is local to the function.\<close>

definition ptyMap :: "(string \<times> string) list" where
  "ptyMap =
     [(''win-x64'', ''@lydell/node-pty-win32-x64''),
      (''mac-x64'', ''@lydell/node-pty-darwin-x64''),
      (''mac-arm64'', ''@lydell/node-pty-darwin-arm64''),
      (''linux-x64'', ''@lydell/node-pty-linux-x64''),
      (''linux-arm64'', ''@lydell/node-pty-linux-arm64'')]"

definition copyNativeAddons_single :: "string \<Rightarrow> path \<Rightarrow> unit prog" where
  "copyNativeAddons_single platform destDir =
     (let ptyPackage = js_get ptyMap platform in
      if \<not> truthy_str ptyPackage then ret ()
      else try_catch
        (case ptyPackage of
           Own pkg \<Rightarrow>
             (let ptyPath = join (join rootDir ''node_modules'') pkg in
              bind (existsSync ptyPath) (\<lambda>found.
                if found
                then bind (readdirSync ptyPath) (\<lambda>names.
                       for_each (filter (\<lambda>f. endsWith f ''.node'') names) (\<lambda>file.
                         seq (copyFileSync (join ptyPath file) (join destDir file))
                           (console_log (''  Copied addon: '' @ file))))
                else ret ()))
         | other \<Rightarrow> throw TypeError)
        (\<lambda>err. console_warn ''  Warning: Could not copy native addons''))"

text \<open>
  \<^verbatim>\<open>buildForPlatform\<close> (lines 78-105). \<^verbatim>\<open>join(platformDir, outputName)\<close> throws a
  \<^verbatim>\<open>TypeError\<close> when \<^verbatim>\<open>outputName\<close> is not a string. The two tables have the same keys, so
  \<^verbatim>\<open>target\<close> is a string whenever \<^verbatim>\<open>outputName\<close> is.
\<close>

definition buildForPlatform_single :: "env \<Rightarrow> string \<Rightarrow> path \<Rightarrow> path prog" where
  "buildForPlatform_single e platform bundlePath =
     (let target = js_get targets platform;
          outputName = js_get outputNames platform;
          platformDir = join distDir_single platform
      in case outputName of
           Own name \<Rightarrow>
             (let outputPath = join platformDir name in
              seq (mkdirSync platformDir)
             (seq (console_log (''\<newline>Building single-file for '' @ platform @ ''...''))
             (seq (case target of
                     Own tgt \<Rightarrow>
                       bind (run_single e ''bun''
                               [''build'', path_str (root_name e) bundlePath, ''--compile'',
                                ''--target'', tgt, ''--outfile'',
                                path_str (root_name e) outputPath, ''--minify''] False)
                         (\<lambda>r. ret ())
                   | other \<Rightarrow> throw TypeError)
             (seq (copyNativeAddons_single platform platformDir)
             (seq (console_log (''  Built: '' @ path_str (root_name e) outputPath))
             (ret outputPath))))))
         | other \<Rightarrow> throw TypeError)"

text \<open>\<^verbatim>\<open>main\<close>, lines 148-152: clean and create the output root.\<close>

definition clean_dist_single :: "unit prog" where
  "clean_dist_single =
     seq (bind (existsSync distDir_single) (\<lambda>found.
            if found then rmSync distDir_single else ret ()))
       (mkdirSync distDir_single)"

text \<open>\<^verbatim>\<open>main\<close>, lines 138-155: the toolchain check, the clean output root, the bundle.\<close>

definition prepare_single :: "env \<Rightarrow> path prog" where
  "prepare_single e =
     bind (spawnSync e ''bun'' [''--version'']) (\<lambda>bunCheck.
       if status bunCheck \<noteq> Some 0
       then seq (console_error
                   ''Bun not found. Install with: curl -fsSL https://bun.sh/install | bash'')
              (process_exit 1)
       else seq (console_log (''Using Bun '' @ trim (stdout bunCheck)))
           (seq clean_dist_single
              (ensureBundle_single e)))"

text \<open>\<^verbatim>\<open>main\<close>, lines 157-175: which platforms are built.\<close>

definition select_single :: "env \<Rightarrow> string list \<Rightarrow> path \<Rightarrow> unit prog" where
  "select_single e args bundlePath =
     (let buildAll = (''--all'' \<in> set args);
          specificPlatform = find (\<lambda>a. \<not> startsWith a ''--'') args
      in if buildAll
         then seq (console_log ''\<newline>Building for all platforms...'')
                (for_each (object_keys targets) (\<lambda>platform.
                   try_catch
                     (bind (buildForPlatform_single e platform bundlePath) (\<lambda>r. ret ()))
                     (\<lambda>err. console_error
                        (''Failed to build for '' @ platform @ '': '' @ message (root_name e) err))))
         else case specificPlatform of
                None \<Rightarrow>
                  bind (buildForPlatform_single e (getCurrentPlatform_single e) bundlePath)
                    (\<lambda>r. ret ())
              | Some key \<Rightarrow>
                  if key \<noteq> [] \<and> truthy_str (js_get targets key)
                  then bind (buildForPlatform_single e key bundlePath) (\<lambda>r. ret ())
                  else if key \<noteq> []
                  then seq (console_error (''Unknown platform: '' @ key))
                      (seq (console_log
                              (''Available: '' @ join_with '', '' (object_keys targets)))
                         (process_exit 1))
                  else bind (buildForPlatform_single e (getCurrentPlatform_single e) bundlePath)
                         (\<lambda>r. ret ()))"

text \<open>\<^verbatim>\<open>main\<close> (lines 133-178).\<close>

definition main_single :: "env \<Rightarrow> string list \<Rightarrow> unit prog" where
  "main_single e args =
     bind (prepare_single e) (\<lambda>bundlePath.
       seq (select_single e args bundlePath)
         (console_log ''\<newline>Done! Single-file executables are in dist-single/''))"

text \<open>Lines 180-183: an error thrown by \<^verbatim>\<open>main\<close> is reported and the process exits with 1.\<close>

definition script_single :: "env \<Rightarrow> string list \<Rightarrow> unit prog" where
  "script_single e args =
     try_catch (main_single e args) (\<lambda>err.
       seq (console_error_object ''Build failed:'' err)
         (process_exit 1))"

section \<open>scripts/build-standalone.js\<close>

definition distDir_standalone :: path where
  "distDir_standalone = join rootDir ''dist-standalone''"

record platform_config =
  ext :: string

definition platforms :: "(string \<times> platform_config) list" where
  "platforms =
     [(''linux-x64'', \<lparr>ext = []\<rparr>),
      (''linux-arm64'', \<lparr>ext = []\<rparr>),
      (''mac-x64'', \<lparr>ext = []\<rparr>),
      (''mac-arm64'', \<lparr>ext = []\<rparr>),
      (''win-x64'', \<lparr>ext = ''.cmd''\<rparr>)]"

text \<open>\<^verbatim>\<open>run\<close> (lines 39-51): a failing command ends the process.\<close>

definition run_standalone :: "env \<Rightarrow> string \<Rightarrow> string list \<Rightarrow> bool \<Rightarrow> spawn_result prog" where
  "run_standalone e command args allowFailure =
     seq (console_log (''> '' @ command @ '' '' @ join_with '' '' args))
       (bind (spawnSync e command args) (\<lambda>result.
          if status result \<noteq> Some 0 \<and> \<not> allowFailure
          then seq (console_error
                      (''Command failed with status '' @ show_status (status result)))
                 (process_exit 1)
          else ret result))"

text \<open>\<^verbatim>\<open>ensureBundle\<close> (lines 53-60).\<close>

definition ensureBundle_standalone :: "env \<Rightarrow> path prog" where
  "ensureBundle_standalone e =
     (let bundleFile = join bundleDir ''gemini.js'' in
      seq (bind (existsSync bundleFile) (\<lambda>found.
             if \<not> found
             then seq (console_log ''Bundle not found, building...'')
                    (bind (run_standalone e ''npm'' [''run'', ''bundle''] False) (\<lambda>r. ret ()))
             else ret ()))
        (ret bundleFile))"

text \<open>\<^verbatim>\<open>getCurrentPlatform\<close> (lines 62-68).\<close>

definition getCurrentPlatform_standalone :: "env \<Rightarrow> string" where
  "getCurrentPlatform_standalone e =
     (if process_platform e = ''win32'' then ''win-x64''
      else if process_platform e = ''darwin''
      then (if process_arch e = ''arm64'' then ''mac-arm64'' else ''mac-x64'')
      else (if process_arch e = ''arm64'' then ''linux-arm64'' else ''linux-x64''))"

text \<open>\<^verbatim>\<open>createLauncher\<close> (lines 70-89). A template string is its lines, each ended by a
  line feed.\<close>

definition unlines :: "string list \<Rightarrow> string" where
  "unlines ls = concat (map (\<lambda>l. l @ ''\<newline>'') ls)"

definition batContent :: string where
  \<open>batContent = unlines
     [''@echo off'',
      ''setlocal'',
      ''set "SCRIPT_DIR=%~dp0"'',
      ''node "%SCRIPT_DIR%'' @ [CHR 0x5C] @ ''bundle'' @ [CHR 0x5C] @ ''gemini.js" %*'']\<close>

definition shContent :: string where
  \<open>shContent = unlines
     [''#!/bin/sh'',
      ''SCRIPT_DIR="$(cd "$(dirname "$0")" && pwd)"'',
      ''exec node "$SCRIPT_DIR/bundle/gemini.js" "$@"'']\<close>

definition createLauncher :: "path \<Rightarrow> bool \<Rightarrow> unit prog" where
  "createLauncher platformDir isWindows =
     (if isWindows
      then seq (writeFileSync (join platformDir ''gsharp.cmd'') batContent default_mode)
             (writeFileSync (join platformDir ''gemini-sharp.cmd'') batContent default_mode)
      else (let gsharpPath = join platformDir ''gsharp'';
                geminiSharpPath = join platformDir ''gemini-sharp''
            in seq (writeFileSync gsharpPath shContent 493)
                 (writeFileSync geminiSharpPath shContent 493)))"

text \<open>\<^verbatim>\<open>copyNativeAddons\<close> (lines 152-176), with the same table as in the other script.\<close>

definition copyNativeAddons_standalone :: "string \<Rightarrow> path \<Rightarrow> unit prog" where
  "copyNativeAddons_standalone platform destDir =
     (let ptyPackage = js_get ptyMap platform in
      if \<not> truthy_str ptyPackage then ret ()
      else try_catch
        (case ptyPackage of
           Own pkg \<Rightarrow>
             (let ptyPath = join (join rootDir ''node_modules'') pkg in
              bind (existsSync ptyPath) (\<lambda>found.
                if found
                then bind (readdirSync ptyPath) (\<lambda>names.
                       for_each (filter (\<lambda>f. endsWith f ''.node'') names) (\<lambda>file.
                         seq (copyFileSync (join ptyPath file) (join destDir file))
                           (console_log (''  Copied native addon: '' @ file))))
                else ret ()))
         | other \<Rightarrow> throw TypeError)
        (\<lambda>err. console_warn (''  Warning: Could not copy native addons for '' @ platform)))"

text \<open>\<^verbatim>\<open>buildPackage\<close> (lines 91-150).\<close>

definition readmeContent :: "bool \<Rightarrow> string" where
  \<open>readmeContent isWindows = unlines
     [''# Gemini Sharp (gsharp)'',
      [],
      ''A privacy-focused, enhanced Gemini CLI.'',
      [],
      ''## Installation'',
      [],
      ''1. Extract this archive to a directory of your choice'',
      ''2. Add the directory to your PATH, or run directly:'',
      ''   '' @ (if isWindows then ''.'' @ [CHR 0x5C] @ ''gsharp.cmd'' else ''./gsharp''),
      [],
      ''## Requirements'',
      [],
      ''- Node.js 20+ must be installed and available as 'node' in PATH'',
      ''- Or download Node.js from: https://nodejs.org/'',
      [],
      ''## Usage'',
      [],
      ''  gsharp              # Start interactive mode'',
      ''  gsharp "prompt"     # Run with a prompt'',
      ''  gsharp --help       # Show help'',
      [],
      ''## More Info'',
      [],
      ''https://github.com/johnzfitch/gemini-xo'']\<close>

definition buildPackage :: "env \<Rightarrow> string \<Rightarrow> path prog" where
  "buildPackage e platformKey =
     (let config = js_get platforms platformKey in
      seq (if \<not> truthy_obj config
           then seq (console_error (''Unknown platform: '' @ platformKey)) (process_exit 1)
           else ret ())
        (let isWindows = startsWith platformKey ''win'';
             platformDir = join distDir_standalone (''gsharp-'' @ platformKey);
             bundleDestDir = join platformDir ''bundle''
         in seq (mkdirSync bundleDestDir)
           (seq (console_log (''\<newline>Building package for '' @ platformKey @ ''...''))
           (bind (readdirSync bundleDir) (\<lambda>bundleFiles.
            seq (for_each bundleFiles (\<lambda>file.
                   copyFileSync (join bundleDir file) (join bundleDestDir file)))
           (seq (console_log (''  Copied '' @ show_nat (length bundleFiles) @ '' bundle files''))
           (seq (copyNativeAddons_standalone platformKey bundleDestDir)
           (seq (createLauncher platformDir isWindows)
           (seq (console_log ''  Created launcher scripts'')
           (seq (writeFileSync (join platformDir ''README.txt'')
                   (readmeContent isWindows) default_mode)
           (seq (console_log (''\<newline>Package ready: '' @ path_str (root_name e) platformDir))
           (ret platformDir))))))))))))"

text \<open>Lines 183-184: the bundle and the output root.\<close>

definition prepare_standalone :: "env \<Rightarrow> unit prog" where
  "prepare_standalone e =
     seq (ensureBundle_standalone e) (mkdirSync distDir_standalone)"

text \<open>Lines 186-199: which platforms are built.\<close>

definition select_standalone :: "env \<Rightarrow> string list \<Rightarrow> unit prog" where
  "select_standalone e args =
     (let specificPlatform = find (\<lambda>a. \<not> startsWith a ''--'') args;
          buildAll = (''--all'' \<in> set args)
      in if buildAll
         then seq (console_log ''Building packages for all platforms...'')
                (for_each (object_keys platforms) (\<lambda>platform.
                   bind (buildPackage e platform) (\<lambda>r. ret ())))
         else case specificPlatform of
                None \<Rightarrow>
                  bind (buildPackage e (getCurrentPlatform_standalone e)) (\<lambda>r. ret ())
              | Some key \<Rightarrow>
                  if key \<noteq> [] \<and> truthy_obj (js_get platforms key)
                  then bind (buildPackage e key) (\<lambda>r. ret ())
                  else if key \<noteq> []
                  then seq (console_error (''Unknown platform: '' @ key))
                      (seq (console_log
                              (''Available: '' @ join_with '', '' (object_keys platforms)))
                         (process_exit 1))
                  else bind (buildPackage e (getCurrentPlatform_standalone e))
                         (\<lambda>r. ret ()))"

text \<open>The module body (lines 178-202). An error thrown here is not caught by the script.\<close>

definition script_standalone :: "env \<Rightarrow> string list \<Rightarrow> unit prog" where
  "script_standalone e args =
     seq (prepare_standalone e)
    (seq (select_standalone e args)
    (seq (console_log ''\<newline>Done! Packages are in dist-standalone/'')
       (console_log ''Note: Users need Node.js 20+ installed to run these packages.'')))"

section \<open>Properties of runs\<close>

text \<open>A program never ends the process; a program always returns normally.\<close>

definition no_exit :: "'a prog \<Rightarrow> bool" where
  "no_exit m = (\<forall>w c. fst (m w) \<noteq> Exit c)"

definition always_ok :: "'a prog \<Rightarrow> bool" where
  "always_ok m = (\<forall>w. \<exists>x. fst (m w) = Ok x)"

text \<open>Every run of a program relates the world before to the world after.\<close>

definition preserves :: "(world \<Rightarrow> world \<Rightarrow> bool) \<Rightarrow> 'a prog \<Rightarrow> bool" where
  "preserves R m = (\<forall>w. R w (snd (m w)))"

text \<open>The calls made between two worlds, and the relation "only calls of one kind were made".\<close>

definition new_events :: "world \<Rightarrow> world \<Rightarrow> event list" where
  "new_events w w' = drop (length (trace w)) (trace w')"

definition emits :: "(event \<Rightarrow> bool) \<Rightarrow> world \<Rightarrow> world \<Rightarrow> bool" where
  "emits P w w' = (prefix (trace w) (trace w') \<and> list_all P (new_events w w'))"

text \<open>The directories asked for, and the files written or copied to.\<close>

fun mkdir_calls :: "event list \<Rightarrow> path list" where
  "mkdir_calls [] = []"
| "mkdir_calls (MkdirSync p # evs) = p # mkdir_calls evs"
| "mkdir_calls (ev # evs) = mkdir_calls evs"

fun write_targets :: "event list \<Rightarrow> path list" where
  "write_targets [] = []"
| "write_targets (CopyFileSync src dst # evs) = dst # write_targets evs"
| "write_targets (WriteFileSync p # evs) = p # write_targets evs"
| "write_targets (ev # evs) = write_targets evs"

text \<open>The error message of an unknown platform key.\<close>

fun is_unknown_platform :: "event \<Rightarrow> bool" where
  "is_unknown_platform (ConsoleError s) = startsWith s ''Unknown platform: ''"
| "is_unknown_platform ev = False"

text \<open>The destinations of the copies asked for, and the calls that are not a removal.\<close>

fun copy_targets :: "event list \<Rightarrow> path list" where
  "copy_targets [] = []"
| "copy_targets (CopyFileSync src dst # evs) = dst # copy_targets evs"
| "copy_targets (ev # evs) = copy_targets evs"

fun not_rm :: "event \<Rightarrow> bool" where
  "not_rm (RmSync p) = False"
| "not_rm ev = True"

text \<open>
  What every call of the standalone script keeps: a directory that exists is still there;
  a file that exists is still there with its content and mode, or a write or copy to its
  path was made in between and it is still a file, or it was the destination of a copy.
\<close>

definition keeps :: "world \<Rightarrow> world \<Rightarrow> bool" where
  "keeps w w' =
     (prefix (trace w) (trace w') \<and>
      (\<forall>p n. node_at (files w) p = Some n \<longrightarrow>
         node_at (files w') p = Some n \<or>
         (is_file (Some n) \<and> p \<in> set (write_targets (new_events w w')) \<and>
          (is_file (node_at (files w') p) \<or> p \<in> set (copy_targets (new_events w w'))))))"




text \<open>A directory that exists and has nothing below it.\<close>

definition empty_dir :: "filesys \<Rightarrow> path \<Rightarrow> bool" where
  "empty_dir fs d =
     (node_at fs d = Some Dir \<and> (\<forall>q. strict_prefix d q \<longrightarrow> node_at fs q = None))"


text \<open>A call that neither asks for a directory nor reports an unknown platform.\<close>

fun quiet :: "event \<Rightarrow> bool" where
  "quiet (MkdirSync p) = False"
| "quiet (ConsoleError s) = (\<not> startsWith s ''Unknown platform: '')"
| "quiet ev = True"

text \<open>In a file tree every node but the root lies in a directory.\<close>

definition parent_closed :: "filesys \<Rightarrow> bool" where
  "parent_closed fs = list_all (\<lambda>(q, n). q = [] \<or> node_at fs (butlast q) = Some Dir) fs"

text \<open>A call that, if it is a copy, copies to a path at or below \<open>d\<close>.\<close>

fun copies_into :: "path \<Rightarrow> event \<Rightarrow> bool" where
  "copies_into d (CopyFileSync src dst) = prefix d dst"
| "copies_into d ev = True"

text \<open>A call that, if it is a copy, copies to a path at or below the \<^verbatim>\<open>bundle\<close> directory of
  some package of the standalone script.\<close>

fun into_bundle :: "event \<Rightarrow> bool" where
  "into_bundle (CopyFileSync src dst) =
     (\<exists>k. prefix (join (join distDir_standalone (''gsharp-'' @ k)) ''bundle'') dst)"
| "into_bundle ev = True"

section \<open>Concrete environments and worlds\<close>

text \<open>A host on which every child process exits with the given status, prints the given
  text and leaves the file tree alone.\<close>

definition host :: "string \<Rightarrow> string \<Rightarrow> nat option \<Rightarrow> string \<Rightarrow> env" where
  "host os cpu st out =
     \<lparr>process_platform = os, process_arch = cpu, root_name = ''/repo'',
      child = (\<lambda>command args fs. (\<lparr>status = st, stdout = out\<rparr>, fs))\<rparr>"

text \<open>A repository with nothing in it, and one whose dependency cache holds the
  \<^verbatim>\<open>node-pty\<close> package for \<open>linux-x64\<close> without any compiled addon.\<close>

definition world_empty :: world where
  "world_empty = \<lparr>files = [], trace = []\<rparr>"


text \<open>A repository that has its bundle, and a host on which \<^verbatim>\<open>npm\<close> fails with status 1
  while every other child succeeds.\<close>

definition world_bundled :: world where
  "world_bundled =
     \<lparr>files = [([''bundle''], Dir), ([''bundle'', ''gemini.js''], File ''//js'' 420)],
      trace = []\<rparr>"

definition host_npm_fails :: env where
  "host_npm_fails =
     \<lparr>process_platform = ''linux'', process_arch = ''x64'', root_name = ''/repo'',
      child = (\<lambda>command args fs.
        (\<lparr>status = (if command = ''npm'' then Some 1 else Some 0), stdout = ''1.2.3''\<rparr>, fs))\<rparr>"

text \<open>A repository in which two package directories of the standalone script exist.\<close>

definition world_packages :: world where
  "world_packages =
     \<lparr>files =
        [([''dist-standalone''], Dir),
         ([''dist-standalone'', ''gsharp-linux-x64''], Dir),
         ([''dist-standalone'', ''gsharp-win-x64''], Dir)],
      trace = []\<rparr>"

text \<open>A host on which the compilation for \<open>linux-x64\<close> fails and every other child succeeds;
  a repository in which a plain file sits where the package directory of \<open>linux-arm64\<close>
  should be.\<close>

definition host_build_fails :: env where
  "host_build_fails =
     \<lparr>process_platform = ''linux'', process_arch = ''x64'', root_name = ''/repo'',
      child = (\<lambda>command args fs.
        (\<lparr>status = (if command = ''bun'' \<and> ''bun-linux-x64'' \<in> set args then Some 1
                     else Some 0),
          stdout = ''1.2.3''\<rparr>, fs))\<rparr>"

definition world_blocked :: world where
  "world_blocked =
     \<lparr>files =
        [([''bundle''], Dir),
         ([''bundle'', ''gemini.js''], File ''//js'' 420),
         ([''dist-standalone''], Dir),
         ([''dist-standalone'', ''gsharp-linux-arm64''], File ''stale'' 420)],
      trace = []\<rparr>"

text \<open>A repository that has its bundle and, in the output root of the single-file script, a
  file left by an earlier run.\<close>

definition world_stale :: world where
  "world_stale =
     \<lparr>files =
        [([''bundle''], Dir),
         ([''bundle'', ''gemini.js''], File ''//js'' 420),
         ([''dist-single''], Dir),
         ([''dist-single'', ''old-build''], File ''stale'' 493)],
      trace = []\<rparr>"

text \<open>A repository whose \<open>linux-x64\<close> package directory holds a note and a launcher of an
  earlier run.\<close>

definition world_old_package :: world where
  "world_old_package =
     \<lparr>files =
        [([''bundle''], Dir),
         ([''bundle'', ''gemini.js''], File ''//js'' 420),
         ([''dist-standalone''], Dir),
         ([''dist-standalone'', ''gsharp-linux-x64''], Dir),
         ([''dist-standalone'', ''gsharp-linux-x64'', ''notes.txt''], File ''keep'' 420),
         ([''dist-standalone'', ''gsharp-linux-x64'', ''gsharp''], File ''old launcher'' 493)],
      trace = []\<rparr>"

text \<open>A repository in which the \<^verbatim>\<open>node-pty\<close> package for \<open>linux-x64\<close> holds a directory
  whose name ends in \<^verbatim>\<open>.node\<close>, and the \<open>linux-x64\<close> package of an earlier run holds an addon
  of that name.\<close>

definition world_addon_dir :: world where
  "world_addon_dir =
     \<lparr>files =
        [([''bundle''], Dir),
         ([''bundle'', ''gemini.js''], File ''//js'' 420),
         ([''node_modules''], Dir),
         ([''node_modules'', ''@lydell''], Dir),
         ([''node_modules'', ''@lydell'', ''node-pty-linux-x64''], Dir),
         ([''node_modules'', ''@lydell'', ''node-pty-linux-x64'', ''pty.node''], Dir),
         ([''dist-standalone''], Dir),
         ([''dist-standalone'', ''gsharp-linux-x64''], Dir),
         ([''dist-standalone'', ''gsharp-linux-x64'', ''bundle''], Dir),
         ([''dist-standalone'', ''gsharp-linux-x64'', ''bundle'', ''pty.node''],
          File ''old addon'' 420)],
      trace = []\<rparr>"

section \<open>Sequencing\<close>

lemma ret_apply: "ret x w = (Ok x, w)"
  by (simp add: ret_def)

lemma throw_apply: "throw e w = (Throw e, w)"
  by (simp add: throw_def)

lemma exit_apply: "process_exit c w = (Exit c, w)"
  by (simp add: process_exit_def)

lemma bind_Ok: "m w = (Ok x, w') \<Longrightarrow> bind m f w = f x w'"
  by (simp add: bind_def)

lemma bind_Throw: "m w = (Throw e, w') \<Longrightarrow> bind m f w = (Throw e, w')"
  by (simp add: bind_def)

lemma bind_Exit: "m w = (Exit c, w') \<Longrightarrow> bind m f w = (Exit c, w')"
  by (simp add: bind_def)

lemma seq_Ok: "m w = (Ok x, w') \<Longrightarrow> seq m n w = n w'"
  by (simp add: seq_def bind_def)

lemma seq_Throw: "m w = (Throw e, w') \<Longrightarrow> seq m n w = (Throw e, w')"
  by (simp add: seq_def bind_def)

lemma seq_Exit: "m w = (Exit c, w') \<Longrightarrow> seq m n w = (Exit c, w')"
  by (simp add: seq_def bind_def)

lemma try_catch_Ok: "m w = (Ok x, w') \<Longrightarrow> try_catch m h w = (Ok x, w')"
  by (simp add: try_catch_def)

lemma try_catch_Throw: "m w = (Throw e, w') \<Longrightarrow> try_catch m h w = h e w'"
  by (simp add: try_catch_def)

lemma try_catch_Exit: "m w = (Exit c, w') \<Longrightarrow> try_catch m h w = (Exit c, w')"
  by (simp add: try_catch_def)

lemma bind_assoc: "bind (bind m f) g = bind m (\<lambda>x. bind (f x) g)"
  by (rule ext) (simp add: bind_def split: prod.splits result.splits)

lemma seq_assoc: "seq (seq m n) k = seq m (seq n k)"
  by (simp add: seq_def bind_assoc)

lemma bind_seq_assoc: "bind (seq m n) g = seq m (bind n g)"
  by (simp add: seq_def bind_assoc)

lemma for_each_append:
  "for_each (xs @ ys) body = seq (for_each xs body) (for_each ys body)"
proof (induction xs)
  case Nil
  show ?case by (rule ext) (simp add: seq_def bind_def ret_def)
next
  case (Cons x xs)
  then show ?case by (simp add: seq_assoc)
qed

subsection \<open>Never exiting, always returning\<close>

lemma no_exit_ret: "no_exit (ret x)"
  by (simp add: no_exit_def ret_def)

lemma no_exit_throw: "no_exit (throw e)"
  by (simp add: no_exit_def throw_def)

lemma no_exit_bind: "no_exit m \<Longrightarrow> (\<And>x. no_exit (f x)) \<Longrightarrow> no_exit (bind m f)"
  unfolding no_exit_def bind_def
  by (auto split: prod.splits result.splits) (metis fst_conv)+

lemma no_exit_seq: "no_exit m \<Longrightarrow> no_exit n \<Longrightarrow> no_exit (seq m n)"
  by (simp add: seq_def no_exit_bind)

lemma no_exit_try_catch: "no_exit m \<Longrightarrow> (\<And>e. no_exit (h e)) \<Longrightarrow> no_exit (try_catch m h)"
  unfolding no_exit_def try_catch_def
  by (auto split: prod.splits result.splits) (metis fst_conv)+

lemma no_exit_for_each: "(\<And>x. x \<in> set xs \<Longrightarrow> no_exit (body x)) \<Longrightarrow> no_exit (for_each xs body)"
  by (induction xs) (simp_all add: no_exit_ret no_exit_seq)

lemma no_exit_if: "no_exit a \<Longrightarrow> no_exit b \<Longrightarrow> no_exit (if c then a else b)"
  by simp

lemma no_exit_emit: "no_exit (emit ev)"
  by (simp add: no_exit_def emit_def)

lemma no_exit_console:
  "no_exit (console_log s)" "no_exit (console_error s)" "no_exit (console_warn s)"
  "no_exit (console_error_object label err)"
  by (simp_all add: console_log_def console_error_def console_warn_def
      console_error_object_def no_exit_emit)


lemma always_ok_ret: "always_ok (ret x)"
  by (simp add: always_ok_def ret_def)

lemma always_ok_seq: "always_ok m \<Longrightarrow> always_ok n \<Longrightarrow> always_ok (seq m n)"
  unfolding always_ok_def seq_def bind_def
  by (auto split: prod.splits result.splits) (metis fst_conv result.distinct)+


lemma always_ok_for_each:
  "(\<And>x. x \<in> set xs \<Longrightarrow> always_ok (body x)) \<Longrightarrow> always_ok (for_each xs body)"
  by (induction xs) (simp_all add: always_ok_ret always_ok_seq)

subsection \<open>Relations kept by every step\<close>

lemma preserves_ret: "reflp R \<Longrightarrow> preserves R (ret x)"
  by (simp add: preserves_def ret_def reflp_def)

lemma preserves_throw: "reflp R \<Longrightarrow> preserves R (throw e)"
  by (simp add: preserves_def throw_def reflp_def)

lemma preserves_exit: "reflp R \<Longrightarrow> preserves R (process_exit c)"
  by (simp add: preserves_def process_exit_def reflp_def)

lemma preserves_bind:
  assumes "transp R" "preserves R m" "\<And>x. preserves R (f x)"
  shows "preserves R (bind m f)"
proof -
  have "R w (snd (bind m f w))" for w
  proof (cases "m w")
    case (Pair r w')
    have 1: "R w w'" using assms(2) Pair by (metis preserves_def snd_conv)
    show ?thesis
    proof (cases r)
      case (Ok x)
      have "R w' (snd (f x w'))" using assms(3) by (simp add: preserves_def)
      with 1 have "R w (snd (f x w'))" using assms(1) by (metis transpD)
      then show ?thesis using Pair Ok by (simp add: bind_def)
    qed (use 1 Pair in \<open>simp_all add: bind_def\<close>)
  qed
  then show ?thesis by (simp add: preserves_def)
qed

lemma preserves_seq: "transp R \<Longrightarrow> preserves R m \<Longrightarrow> preserves R n \<Longrightarrow> preserves R (seq m n)"
  by (simp add: seq_def preserves_bind)

lemma preserves_try_catch:
  assumes "transp R" "preserves R m" "\<And>e. preserves R (h e)"
  shows "preserves R (try_catch m h)"
proof -
  have "R w (snd (try_catch m h w))" for w
  proof (cases "m w")
    case (Pair r w')
    have 1: "R w w'" using assms(2) Pair by (metis preserves_def snd_conv)
    show ?thesis
    proof (cases r)
      case (Throw e)
      have "R w' (snd (h e w'))" using assms(3) by (simp add: preserves_def)
      with 1 have "R w (snd (h e w'))" using assms(1) by (metis transpD)
      then show ?thesis using Pair Throw by (simp add: try_catch_def)
    qed (use 1 Pair in \<open>simp_all add: try_catch_def\<close>)
  qed
  then show ?thesis by (simp add: preserves_def)
qed

lemma preserves_for_each:
  "reflp R \<Longrightarrow> transp R \<Longrightarrow> (\<And>x. x \<in> set xs \<Longrightarrow> preserves R (body x)) \<Longrightarrow>
   preserves R (for_each xs body)"
  by (induction xs) (simp_all add: preserves_ret preserves_seq)

lemma preserves_if: "preserves R a \<Longrightarrow> preserves R b \<Longrightarrow> preserves R (if c then a else b)"
  by simp

lemma preservesD: "preserves R m \<Longrightarrow> m w = (r, w') \<Longrightarrow> R w w'"
  by (metis preserves_def snd_conv)

section \<open>The file tree after each call\<close>

lemma node_at_root: "node_at fs [] = Some Dir"
  by (simp add: node_at_def)

lemma node_at_update:
  "k \<noteq> [] \<Longrightarrow> node_at (AList.update k v fs) q = (if q = k then Some v else node_at fs q)"
  by (simp add: node_at_def update_conv')

lemma node_at_delete:
  "k \<noteq> [] \<Longrightarrow> node_at (AList.delete k fs) q = (if q = k then None else node_at fs q)"
  by (simp add: node_at_def delete_conv')

lemma node_at_remove:
  "node_at (filter (\<lambda>(q, n). \<not> prefix p q) fs) q =
     (if q \<noteq> [] \<and> prefix p q then None else node_at fs q)"
proof (induction fs)
  case Nil
  show ?case by (simp add: node_at_def)
next
  case (Cons a fs)
  then show ?case by (cases a) (auto simp: node_at_def)
qed

lemma node_at_add_dir:
  "node_at (add_dir fs q') q =
     (if q = q' \<and> node_at fs q = None then Some Dir else node_at fs q)"
  by (auto simp: add_dir_def node_at_def map_add_def split: option.splits)

lemma node_at_add_dirs:
  "node_at (foldl add_dir fs qs) q =
     (if q \<in> set qs \<and> node_at fs q = None then Some Dir else node_at fs q)"
proof (induction qs arbitrary: fs)
  case Nil
  show ?case by simp
next
  case (Cons a qs)
  show ?case by (simp add: Cons.IH node_at_add_dir)
qed


lemma self_in_ancestors: "p \<noteq> [] \<Longrightarrow> p \<in> set (ancestors_and_self p)"
proof -
  assume "p \<noteq> []"
  then have "length p \<in> set [1..<Suc (length p)]" by (cases p) simp_all
  then have "take (length p) p \<in> set (ancestors_and_self p)"
    unfolding ancestors_and_self_def by (metis (no_types, lifting) image_eqI set_map)
  then show ?thesis by simp
qed

lemma mkdirSync_apply:
  "mkdirSync p w =
     (if list_ex (\<lambda>q. is_file (node_at (files w) q)) (ancestors_and_self p)
      then (Throw (SystemError (if is_file (node_at (files w) p) then EEXIST else ENOTDIR)
                     ''mkdir'' p),
            w\<lparr>trace := trace w @ [MkdirSync p]\<rparr>)
      else (Ok (), \<lparr>files = foldl add_dir (files w) (ancestors_and_self p),
                     trace = trace w @ [MkdirSync p]\<rparr>))"
proof (cases "p = []")
  case True
  then show ?thesis
    by (simp add: mkdirSync_def seq_def bind_def emit_def node_at_def ancestors_and_self_def)
next
  case False
  then have "is_file (node_at (files w) p) \<Longrightarrow>
      list_ex (\<lambda>q. is_file (node_at (files w) q)) (ancestors_and_self p)"
    using self_in_ancestors by (auto simp: list_ex_iff)
  then show ?thesis
    by (auto simp: mkdirSync_def seq_def bind_def emit_def)
qed

lemma rmSync_apply:
  "rmSync p w =
     (if node_at (files w) p = None
      then (Throw (SystemError ENOENT ''rm'' p), w\<lparr>trace := trace w @ [RmSync p]\<rparr>)
      else (Ok (), \<lparr>files = filter (\<lambda>(q, n). \<not> prefix p q) (files w),
                     trace = trace w @ [RmSync p]\<rparr>))"
  by (simp add: rmSync_def seq_def bind_def emit_def)

lemma emit_apply: "emit ev w = (Ok (), w\<lparr>trace := trace w @ [ev]\<rparr>)"
  by (simp add: emit_def)

lemma console_log_apply: "console_log s w = (Ok (), w\<lparr>trace := trace w @ [ConsoleLog s]\<rparr>)"
  by (simp add: console_log_def emit_def)

lemma console_error_apply:
  "console_error s w = (Ok (), w\<lparr>trace := trace w @ [ConsoleError s]\<rparr>)"
  by (simp add: console_error_def emit_def)

lemma console_error_object_apply:
  "console_error_object label err w =
     (Ok (), w\<lparr>trace := trace w @ [ConsoleErrorObject label err]\<rparr>)"
  by (simp add: console_error_object_def emit_def)

lemma console_warn_apply: "console_warn s w = (Ok (), w\<lparr>trace := trace w @ [ConsoleWarn s]\<rparr>)"
  by (simp add: console_warn_def emit_def)

lemma spawnSync_apply:
  "spawnSync e c args w =
     (Ok (fst (child e c args (files w))),
      \<lparr>files = snd (child e c args (files w)), trace = trace w @ [SpawnSync c args]\<rparr>)"
  by (simp add: spawnSync_def seq_def bind_def emit_def split: prod.splits)

lemma existsSync_apply:
  "existsSync p w =
     (Ok (node_at (files w) p \<noteq> None), w\<lparr>trace := trace w @ [ExistsSync p]\<rparr>)"
  by (simp add: existsSync_def seq_def bind_def emit_def)

lemma readdirSync_apply:
  "readdirSync p w =
     ((case node_at (files w) p of
         None \<Rightarrow> Throw (SystemError ENOENT ''scandir'' p)
       | Some (File c m) \<Rightarrow> Throw (SystemError ENOTDIR ''scandir'' p)
       | Some Dir \<Rightarrow> Ok (entries (files w) p)),
      w\<lparr>trace := trace w @ [ReaddirSync p]\<rparr>)"
  by (simp add: readdirSync_def seq_def bind_def emit_def split: option.splits node.splits)

lemma copyFileSync_apply:
  "copyFileSync src dst w =
     (case node_at (files w) src of
        None \<Rightarrow> (Throw (SystemError ENOENT ''copyfile'' src),
                 w\<lparr>trace := trace w @ [CopyFileSync src dst]\<rparr>)
      | Some Dir \<Rightarrow>
          (case write_check (files w) ''copyfile'' dst of
             Some err \<Rightarrow> (Throw err, w\<lparr>trace := trace w @ [CopyFileSync src dst]\<rparr>)
           | None \<Rightarrow> (Throw (SystemError EISDIR ''copyfile'' src),
                      \<lparr>files = AList.delete dst (files w),
                       trace = trace w @ [CopyFileSync src dst]\<rparr>))
      | Some (File c m) \<Rightarrow>
          (case write_check (files w) ''copyfile'' dst of
             Some err \<Rightarrow> (Throw err, w\<lparr>trace := trace w @ [CopyFileSync src dst]\<rparr>)
           | None \<Rightarrow> (Ok (), \<lparr>files = AList.update dst (File c m) (files w),
                               trace = trace w @ [CopyFileSync src dst]\<rparr>)))"
  by (simp add: copyFileSync_def seq_def bind_def emit_def split: option.splits node.splits)

lemma writeFileSync_apply:
  "writeFileSync p content mode w =
     (case write_check (files w) ''open'' p of
        Some err \<Rightarrow> (Throw err, w\<lparr>trace := trace w @ [WriteFileSync p]\<rparr>)
      | None \<Rightarrow>
          (Ok (), \<lparr>files = AList.update p
                     (case node_at (files w) p of
                        Some (File c m) \<Rightarrow> File content m
                      | other \<Rightarrow> File content mode) (files w),
                   trace = trace w @ [WriteFileSync p]\<rparr>))"
  by (simp add: writeFileSync_def seq_def bind_def emit_def split: option.splits node.splits)

lemma write_check_None:
  "write_check fs call p = None \<Longrightarrow>
     p \<noteq> [] \<and> node_at fs (butlast p) = Some Dir \<and> node_at fs p \<noteq> Some Dir"
  by (auto simp: write_check_def split: option.splits node.splits if_splits)

lemma no_exit_prims:
  "no_exit (spawnSync e c args)" "no_exit (existsSync p)" "no_exit (rmSync p)"
  "no_exit (mkdirSync p)" "no_exit (readdirSync p)" "no_exit (copyFileSync src dst)"
  "no_exit (writeFileSync p content mode)"
  by (simp_all add: no_exit_def spawnSync_apply existsSync_apply rmSync_apply mkdirSync_apply
      readdirSync_apply copyFileSync_apply writeFileSync_apply
      split: option.splits node.splits)

subsection \<open>The relations are preorders\<close>

lemma new_events_append: "trace w' = trace w @ evs \<Longrightarrow> new_events w w' = evs"
  by (simp add: new_events_def)

lemma prefix_new_events: "prefix (trace w) (trace w') \<Longrightarrow> trace w' = trace w @ new_events w w'"
  by (auto simp: new_events_def prefix_def)

lemma new_events_trans:
  "prefix (trace w) (trace w') \<Longrightarrow> prefix (trace w') (trace w'') \<Longrightarrow>
     new_events w w'' = new_events w w' @ new_events w' w''"
  by (auto simp: new_events_def prefix_def)

lemma emits_refl: "reflp (emits P)"
  by (simp add: reflp_def emits_def new_events_def)

lemma emits_trans: "transp (emits P)"
proof (rule transpI)
  fix w w' w''
  assume "emits P w w'" "emits P w' w''"
  then show "emits P w w''"
    using new_events_trans [of w w' w''] by (auto simp: emits_def)
qed

lemma keeps_refl: "reflp keeps"
  by (simp add: reflp_def keeps_def)

lemma write_targets_append:
  "set (write_targets (xs @ ys)) = set (write_targets xs) \<union> set (write_targets ys)"
  by (induction xs rule: write_targets.induct) auto

lemma copy_targets_append:
  "set (copy_targets (xs @ ys)) = set (copy_targets xs) \<union> set (copy_targets ys)"
  by (induction xs rule: copy_targets.induct) auto

lemma copy_targets_written: "set (copy_targets evs) \<subseteq> set (write_targets evs)"
  by (induction evs rule: copy_targets.induct) auto

lemma keeps_trans: "transp keeps"
proof (rule transpI)
  fix w w' w''
  assume a: "keeps w w'" and b: "keeps w' w''"
  have p1: "prefix (trace w) (trace w')" and p2: "prefix (trace w') (trace w'')"
    using a b by (simp_all add: keeps_def)
  have ne: "new_events w w'' = new_events w w' @ new_events w' w''"
    using p1 p2 by (rule new_events_trans)
  have "node_at (files w'') p = Some n \<or>
        (is_file (Some n) \<and> p \<in> set (write_targets (new_events w w'')) \<and>
         (is_file (node_at (files w'') p) \<or> p \<in> set (copy_targets (new_events w w''))))"
    if n: "node_at (files w) p = Some n" for p n
  proof -
    from a n consider (same) "node_at (files w') p = Some n"
      | (over) "is_file (Some n)" "p \<in> set (write_targets (new_events w w'))"
          "is_file (node_at (files w') p)"
      | (gone) "is_file (Some n)" "p \<in> set (copy_targets (new_events w w'))"
      using copy_targets_written unfolding keeps_def by blast
    then show ?thesis
    proof cases
      case same
      with b show ?thesis
        unfolding keeps_def ne write_targets_append copy_targets_append by blast
    next
      case over
      then obtain n' where n': "node_at (files w') p = Some n'" "is_file (Some n')"
        by (cases "node_at (files w') p") auto
      from b n' have "node_at (files w'') p = Some n' \<or>
          (p \<in> set (write_targets (new_events w' w'')) \<and>
           (is_file (node_at (files w'') p) \<or>
            p \<in> set (copy_targets (new_events w' w''))))"
        unfolding keeps_def by blast
      with n' over show ?thesis
        unfolding ne write_targets_append copy_targets_append by auto
    next
      case gone
      with copy_targets_written show ?thesis
        unfolding ne write_targets_append copy_targets_append by blast
    qed
  qed
  then show "keeps w w''"
    using p1 p2 by (auto simp: keeps_def)
qed







section \<open>Facts about the functions of the scripts\<close>

lemma segments_simps:
  "segments ''node_modules'' = [''node_modules'']"
  "segments ''bundle'' = [''bundle'']"
  "segments ''gemini.js'' = [''gemini.js'']"
  "segments ''dist-single'' = [''dist-single'']"
  "segments ''dist-standalone'' = [''dist-standalone'']"
  "segments ''gsharp'' = [''gsharp'']"
  "segments ''gemini-sharp'' = [''gemini-sharp'']"
  "segments ''gsharp.cmd'' = [''gsharp.cmd'']"
  "segments ''gemini-sharp.cmd'' = [''gemini-sharp.cmd'']"
  "segments ''README.txt'' = [''README.txt'']"
  by (simp_all add: segments_def)

lemma no_exit_copy_addons:
  "no_exit (bind (existsSync ptyPath) (\<lambda>found.
     if found
     then bind (readdirSync ptyPath) (\<lambda>names.
            for_each (filter (\<lambda>f. endsWith f ''.node'') names) (\<lambda>file.
              seq (copyFileSync (join ptyPath file) (join destDir file))
                (console_log (msg file))))
     else ret ()))"
  by (intro no_exit_bind no_exit_if no_exit_for_each no_exit_seq no_exit_prims
      no_exit_console no_exit_ret)



text \<open>Rewriting a run on a concrete world.\<close>

lemmas run_simps =
  bind_def seq_def try_catch_def ret_def throw_def process_exit_def Let_def
  console_log_apply console_error_apply console_warn_apply console_error_object_apply
  spawnSync_apply existsSync_apply
  rmSync_apply mkdirSync_apply readdirSync_apply copyFileSync_apply writeFileSync_apply
  join_def segments_def rootDir_def bundleDir_def node_at_def

lemma bundleFile_eq: "join bundleDir ''gemini.js'' = [''bundle'', ''gemini.js'']"
  by (simp add: join_def bundleDir_def rootDir_def segments_def)

lemmas eval_simps =
  run_simps ancestors_and_self_def add_dir_def write_check_def entries_def js_get_def
  startsWith_def endsWith_def suffix_to_prefix object_keys_def trim_def js_space_def
  distDir_single_def distDir_standalone_def targets_def outputNames_def platforms_def
  ptyMap_def new_events_def path_str_def object_prototype_keys_def

subsection \<open>Writing a file\<close>

lemma writeFileSync_Ok:
  assumes "writeFileSync p content mode w = (Ok (), w')"
  shows "p \<noteq> []" "node_at (files w) (butlast p) = Some Dir"
    "\<exists>m. \<forall>q. node_at (files w') q = (if q = p then Some (File content m) else node_at (files w) q)"
    "trace w' = trace w @ [WriteFileSync p]"
proof -
  from assms have wc: "write_check (files w) ''open'' p = None"
    by (auto simp: writeFileSync_apply split: option.splits)
  then show ne: "p \<noteq> []" and "node_at (files w) (butlast p) = Some Dir"
    using write_check_None by blast+
  from assms wc show "trace w' = trace w @ [WriteFileSync p]"
    by (auto simp: writeFileSync_apply)
  from assms wc have "files w' = AList.update p
       (case node_at (files w) p of Some (File c m) \<Rightarrow> File content m
        | other \<Rightarrow> File content mode) (files w)"
    by (auto simp: writeFileSync_apply)
  then show "\<exists>m. \<forall>q. node_at (files w') q =
      (if q = p then Some (File content m) else node_at (files w) q)"
    using ne by (auto simp: node_at_update split: option.splits node.splits)
qed

lemma writeFileSync_again:
  assumes "node_at (files w) p = Some (File content m)" "p \<noteq> []"
    "node_at (files w) (butlast p) = Some Dir"
  shows "writeFileSync p content mode w = (Ok (), w\<lparr>trace := trace w @ [WriteFileSync p]\<rparr>)"
proof -
  have "write_check (files w) ''open'' p = None"
    using assms by (simp add: write_check_def)
  moreover have "AList.update p (File content m) (files w) = files w"
    using assms(1,2) by (intro update_triv) (simp add: node_at_def)
  ultimately show ?thesis
    using assms(1) by (simp add: writeFileSync_apply)
qed

lemma write_two_files_twice:
  assumes 1: "writeFileSync (d @ [a]) content mode w = (Ok (), w1)"
    and 2: "writeFileSync (d @ [b]) content mode w1 = (Ok (), w2)"
    and ab: "a \<noteq> b"
  shows "\<exists>w3. seq (writeFileSync (d @ [a]) content mode) (writeFileSync (d @ [b]) content mode) w2
            = (Ok (), w3) \<and> files w3 = files w2"
    "\<exists>m. node_at (files w2) (d @ [a]) = Some (File content m)"
    "\<exists>m. node_at (files w2) (d @ [b]) = Some (File content m)"
proof -
  from writeFileSync_Ok [OF 1] obtain m1 where
    d1: "node_at (files w) d = Some Dir" and
    n1: "\<And>q. node_at (files w1) q = (if q = d @ [a] then Some (File content m1) else node_at (files w) q)"
    by auto
  from writeFileSync_Ok [OF 2] obtain m2 where
    n2: "\<And>q. node_at (files w2) q = (if q = d @ [b] then Some (File content m2) else node_at (files w1) q)"
    by auto
  have a2: "node_at (files w2) (d @ [a]) = Some (File content m1)"
    using ab by (simp add: n1 n2)
  have b2: "node_at (files w2) (d @ [b]) = Some (File content m2)"
    by (simp add: n2)
  have d2: "node_at (files w2) d = Some Dir"
    by (simp add: n1 n2 d1)
  show "\<exists>m. node_at (files w2) (d @ [a]) = Some (File content m)" using a2 by blast
  show "\<exists>m. node_at (files w2) (d @ [b]) = Some (File content m)" using b2 by blast
  have r1: "writeFileSync (d @ [a]) content mode w2 =
      (Ok (), w2\<lparr>trace := trace w2 @ [WriteFileSync (d @ [a])]\<rparr>)"
    using a2 d2 by (intro writeFileSync_again) simp_all
  have r2: "writeFileSync (d @ [b]) content mode (w2\<lparr>trace := trace w2 @ [WriteFileSync (d @ [a])]\<rparr>) =
      (Ok (), w2\<lparr>trace := trace w2 @ [WriteFileSync (d @ [a])]\<rparr>
                 \<lparr>trace := trace (w2\<lparr>trace := trace w2 @ [WriteFileSync (d @ [a])]\<rparr>) @ [WriteFileSync (d @ [b])]\<rparr>)"
    using b2 d2 by (intro writeFileSync_again) simp_all
  show "\<exists>w3. seq (writeFileSync (d @ [a]) content mode) (writeFileSync (d @ [b]) content mode) w2
            = (Ok (), w3) \<and> files w3 = files w2"
    by (simp add: seq_def bind_def r1 r2)
qed

lemma seq_Ok_iff:
  "seq m n w = (Ok x, w') \<longleftrightarrow> (\<exists>y w1. m w = (Ok y, w1) \<and> n w1 = (Ok x, w'))"
  by (auto simp: seq_def bind_def split: prod.splits result.splits)

subsection \<open>The calls a function makes\<close>

lemma emits_one: "trace w' = trace w @ [ev] \<Longrightarrow> P ev \<Longrightarrow> emits P w w'"
  by (simp add: emits_def new_events_def)

lemma emits_emit: "P ev \<Longrightarrow> preserves (emits P) (emit ev)"
  by (simp add: preserves_def emit_def emits_one)

lemma emits_console:
  "P (ConsoleLog s) \<Longrightarrow> preserves (emits P) (console_log s)"
  "P (ConsoleError s) \<Longrightarrow> preserves (emits P) (console_error s)"
  "P (ConsoleWarn s) \<Longrightarrow> preserves (emits P) (console_warn s)"
  "P (ConsoleErrorObject label err) \<Longrightarrow> preserves (emits P) (console_error_object label err)"
  by (simp_all add: console_log_def console_error_def console_warn_def
      console_error_object_def emits_emit)

lemma emits_prims:
  "P (SpawnSync c args) \<Longrightarrow> preserves (emits P) (spawnSync e c args)"
  "P (ExistsSync p) \<Longrightarrow> preserves (emits P) (existsSync p)"
  "P (RmSync p) \<Longrightarrow> preserves (emits P) (rmSync p)"
  "P (MkdirSync p) \<Longrightarrow> preserves (emits P) (mkdirSync p)"
  "P (ReaddirSync p) \<Longrightarrow> preserves (emits P) (readdirSync p)"
  "P (CopyFileSync src dst) \<Longrightarrow> preserves (emits P) (copyFileSync src dst)"
  "P (WriteFileSync p) \<Longrightarrow> preserves (emits P) (writeFileSync p content mode)"
  by (auto simp: preserves_def spawnSync_apply existsSync_apply rmSync_apply mkdirSync_apply
      readdirSync_apply copyFileSync_apply writeFileSync_apply
      intro!: emits_one split: option.splits node.splits)

lemmas emits_intros =
  preserves_bind [OF emits_trans] preserves_seq [OF emits_trans]
  preserves_try_catch [OF emits_trans] preserves_for_each [OF emits_refl emits_trans]
  preserves_if preserves_ret [OF emits_refl] preserves_throw [OF emits_refl]
  preserves_exit [OF emits_refl] emits_console emits_prims

lemma emits_mono: "emits P w w' \<Longrightarrow> (\<And>ev. P ev \<Longrightarrow> Q ev) \<Longrightarrow> emits Q w w'"
  by (auto simp: emits_def list_all_iff)

lemma emitsD: "emits P w w' \<Longrightarrow> \<exists>evs. trace w' = trace w @ evs \<and> list_all P evs"
  using prefix_new_events by (auto simp: emits_def)

lemma quiet_run_single: "preserves (emits quiet) (run_single e command args allowFailure)"
  unfolding run_single_def by (intro emits_intros) simp_all

lemma quiet_copyNativeAddons_single:
  "preserves (emits quiet) (copyNativeAddons_single platform destDir)"
  unfolding copyNativeAddons_single_def Let_def
  by (cases "js_get ptyMap platform") (intro emits_intros; simp)+

lemma quiet_copyNativeAddons_standalone:
  "preserves (emits quiet) (copyNativeAddons_standalone platform destDir)"
  unfolding copyNativeAddons_standalone_def Let_def
  by (cases "js_get ptyMap platform") (intro emits_intros; simp)+

lemma quiet_createLauncher: "preserves (emits quiet) (createLauncher platformDir isWindows)"
  unfolding createLauncher_def Let_def by (intro emits_intros) simp_all

lemma no_exit_run_single: "no_exit (run_single e command args allowFailure)"
  unfolding run_single_def
  by (intro no_exit_seq no_exit_bind no_exit_if no_exit_console no_exit_prims no_exit_throw
      no_exit_ret)

lemma no_exit_copyNativeAddons:
  "no_exit (copyNativeAddons_single platform destDir)"
  "no_exit (copyNativeAddons_standalone platform destDir)"
  unfolding copyNativeAddons_single_def copyNativeAddons_standalone_def Let_def
  by (auto intro!: no_exit_ret no_exit_try_catch no_exit_copy_addons no_exit_throw
      no_exit_console split: jsprop.splits)

lemma no_exit_createLauncher: "no_exit (createLauncher platformDir isWindows)"
  unfolding createLauncher_def Let_def by (intro no_exit_if no_exit_seq no_exit_prims)

subsection \<open>One attempt per platform\<close>

lemma mkdir_calls_append: "mkdir_calls (xs @ ys) = mkdir_calls xs @ mkdir_calls ys"
  by (induction xs rule: mkdir_calls.induct) simp_all

lemma quiet_no_mkdir: "list_all quiet evs \<Longrightarrow> mkdir_calls evs = []"
  by (induction evs rule: mkdir_calls.induct) simp_all

lemma quiet_known: "list_all quiet evs \<Longrightarrow> \<not> list_ex is_unknown_platform evs"
proof (induction evs)
  case Nil
  show ?case by simp
next
  case (Cons ev evs)
  then show ?case by (cases ev) simp_all
qed

lemma mkdir_then_quiet:
  assumes q: "preserves (emits quiet) rest" and n: "no_exit rest"
  shows "\<exists>r w' evs. seq (mkdirSync p) rest w = (r, w') \<and> (\<forall>c. r \<noteq> Exit c) \<and>
           trace w' = trace w @ MkdirSync p # evs \<and> list_all quiet evs"
proof (cases "list_ex (\<lambda>q. is_file (node_at (files w) q)) (ancestors_and_self p)")
  case True
  then show ?thesis by (simp add: seq_def bind_def mkdirSync_apply)
next
  case False
  define w1 where "w1 = \<lparr>files = foldl add_dir (files w) (ancestors_and_self p),
                           trace = trace w @ [MkdirSync p]\<rparr>"
  have s: "seq (mkdirSync p) rest w = rest w1"
    using False by (simp add: seq_def bind_def mkdirSync_apply w1_def)
  obtain r w' where r: "rest w1 = (r, w')" by (cases "rest w1")
  from preservesD [OF q r] obtain evs where "trace w' = trace w1 @ evs" "list_all quiet evs"
    using emitsD by blast
  moreover have "\<forall>c. r \<noteq> Exit c"
    using n r by (metis fst_conv no_exit_def)
  ultimately show ?thesis
    using s r by (simp add: w1_def)
qed

lemma buildForPlatform_single_attempt:
  assumes "platform \<in> set (object_keys targets)"
  shows "\<exists>r w' evs. buildForPlatform_single e platform b w = (r, w') \<and> (\<forall>c. r \<noteq> Exit c) \<and>
           trace w' = trace w @ MkdirSync (join distDir_single platform) # evs \<and>
           list_all quiet evs"
proof -
  from assms obtain name tgt where
    g: "js_get outputNames platform = Own name" "js_get targets platform = Own tgt"
    by (auto simp: object_keys_def targets_def outputNames_def js_get_def)
  show ?thesis
    unfolding buildForPlatform_single_def Let_def g jsprop.case
    by (rule mkdir_then_quiet)
      (intro emits_intros quiet_run_single quiet_copyNativeAddons_single
        no_exit_seq no_exit_bind no_exit_console no_exit_ret no_exit_run_single
        no_exit_copyNativeAddons; simp)+
qed

lemma try_build_single_attempt:
  assumes "platform \<in> set (object_keys targets)"
  shows "\<exists>w' evs.
           try_catch (bind (buildForPlatform_single e platform b) (\<lambda>r. ret ()))
             (\<lambda>err. console_error
                (''Failed to build for '' @ platform @ '': '' @ message (root_name e) err)) w
           = (Ok (), w') \<and>
           trace w' = trace w @ MkdirSync (join distDir_single platform) # evs \<and>
           list_all quiet evs"
proof -
  from buildForPlatform_single_attempt [OF assms] obtain r w' evs where
    b: "buildForPlatform_single e platform b w = (r, w')" "\<forall>c. r \<noteq> Exit c"
       "trace w' = trace w @ MkdirSync (join distDir_single platform) # evs"
       "list_all quiet evs"
    by blast
  show ?thesis
  proof (cases r)
    case (Ok x)
    with b show ?thesis by (simp add: try_catch_def bind_def ret_def)
  next
    case (Throw err)
    with b show ?thesis
      by (simp add: try_catch_def bind_def console_error_apply startsWith_def)
  next
    case (Exit c)
    with b show ?thesis by simp
  qed
qed

lemma for_each_attempts:
  assumes "\<And>k w. k \<in> set ks \<Longrightarrow>
      \<exists>w' evs. body k w = (Ok (), w') \<and> trace w' = trace w @ MkdirSync (g k) # evs \<and>
         list_all quiet evs"
  shows "\<exists>w' evs. for_each ks body w = (Ok (), w') \<and> trace w' = trace w @ evs \<and>
           mkdir_calls evs = map g ks \<and> \<not> list_ex is_unknown_platform evs"
  using assms
proof (induction ks arbitrary: w)
  case Nil
  show ?case by (simp add: ret_def)
next
  case (Cons k ks)
  from Cons.prems [of k w] obtain w1 evs1 where
    1: "body k w = (Ok (), w1)" "trace w1 = trace w @ MkdirSync (g k) # evs1"
       "list_all quiet evs1"
    by auto
  from Cons.IH [of w1] Cons.prems obtain w2 evs2 where
    2: "for_each ks body w1 = (Ok (), w2)" "trace w2 = trace w1 @ evs2"
       "mkdir_calls evs2 = map g ks" "\<not> list_ex is_unknown_platform evs2"
    by auto
  have "for_each (k # ks) body w = (Ok (), w2)"
    using 1 2 by (simp add: seq_def bind_def)
  moreover have "trace w2 = trace w @ (MkdirSync (g k) # evs1 @ evs2)"
    using 1 2 by simp
  moreover have "mkdir_calls (MkdirSync (g k) # evs1 @ evs2) = map g (k # ks)"
    using 1 2 by (simp add: mkdir_calls_append quiet_no_mkdir)
  moreover have "\<not> list_ex is_unknown_platform (MkdirSync (g k) # evs1 @ evs2)"
    using 1 2 quiet_known [of evs1] by simp
  ultimately show ?case by blast
qed

lemma select_single_all:
  assumes "''--all'' \<in> set args"
  shows "\<exists>w' evs. select_single e args b w = (Ok (), w') \<and> trace w' = trace w @ evs \<and>
           mkdir_calls evs = map (join distDir_single) (object_keys targets) \<and>
           \<not> list_ex is_unknown_platform evs"
proof -
  define w0 where "w0 = w\<lparr>trace := trace w @ [ConsoleLog ''\<newline>Building for all platforms...'']\<rparr>"
  let ?body = "\<lambda>platform. try_catch
      (bind (buildForPlatform_single e platform b) (\<lambda>r. ret ()))
      (\<lambda>err. console_error
         (''Failed to build for '' @ platform @ '': '' @ message (root_name e) err))"
  have s: "select_single e args b w = for_each (object_keys targets) ?body w0"
    using assms by (simp add: select_single_def seq_def bind_def console_log_apply w0_def)
  from for_each_attempts [of "object_keys targets" ?body "join distDir_single" w0]
    try_build_single_attempt
  obtain w' evs where
    "for_each (object_keys targets) ?body w0 = (Ok (), w')" "trace w' = trace w0 @ evs"
    "mkdir_calls evs = map (join distDir_single) (object_keys targets)"
    "\<not> list_ex is_unknown_platform evs"
    by blast
  then show ?thesis
    using s by (simp add: w0_def)
qed

lemma seq_ret: "seq (ret x) n = n"
  by (rule ext) (simp add: seq_def bind_def ret_def)

lemma no_exit_quiet_package_rest:
  "no_exit (seq (console_log s1)
     (bind (readdirSync bundleDir) (\<lambda>bundleFiles.
        seq (for_each bundleFiles (\<lambda>file.
               copyFileSync (join bundleDir file) (join bundleDestDir file)))
       (seq (console_log (s2 bundleFiles))
       (seq (copyNativeAddons_standalone platformKey bundleDestDir)
       (seq (createLauncher platformDir isWindows)
       (seq (console_log s3)
       (seq (writeFileSync readme content default_mode)
       (seq (console_log s4)
       (ret platformDir))))))))))"
  "preserves (emits quiet) (seq (console_log s1)
     (bind (readdirSync bundleDir) (\<lambda>bundleFiles.
        seq (for_each bundleFiles (\<lambda>file.
               copyFileSync (join bundleDir file) (join bundleDestDir file)))
       (seq (console_log (s2 bundleFiles))
       (seq (copyNativeAddons_standalone platformKey bundleDestDir)
       (seq (createLauncher platformDir isWindows)
       (seq (console_log s3)
       (seq (writeFileSync readme content default_mode)
       (seq (console_log s4)
       (ret platformDir))))))))))"
   apply (intro no_exit_seq no_exit_bind no_exit_for_each no_exit_console no_exit_prims
      no_exit_copyNativeAddons no_exit_createLauncher no_exit_ret)
  apply (intro emits_intros quiet_copyNativeAddons_standalone quiet_createLauncher; simp)
  done

lemma buildPackage_attempt:
  assumes "truthy_obj (js_get platforms k)"
  shows "\<exists>r w' evs. buildPackage e k w = (r, w') \<and> (\<forall>c. r \<noteq> Exit c) \<and>
           trace w' = trace w @
             MkdirSync (join (join distDir_standalone (''gsharp-'' @ k)) ''bundle'') # evs \<and>
           list_all quiet evs"
  unfolding buildPackage_def Let_def
  apply (simp only: assms not_True_eq_False if_False seq_ret)
  apply (rule mkdir_then_quiet)
   apply (rule no_exit_quiet_package_rest)+
  done

lemma platform_keys_truthy:
  "k \<in> set (object_keys platforms) \<Longrightarrow> truthy_obj (js_get platforms k)"
  by (auto simp: object_keys_def platforms_def js_get_def)

lemma build_step_attempt:
  assumes "k \<in> set (object_keys platforms)"
  shows "\<exists>r w' evs. bind (buildPackage e k) (\<lambda>r. ret ()) w = (r, w') \<and> (\<forall>c. r \<noteq> Exit c) \<and>
           trace w' = trace w @
             MkdirSync (join (join distDir_standalone (''gsharp-'' @ k)) ''bundle'') # evs \<and>
           list_all quiet evs"
proof -
  from buildPackage_attempt [OF platform_keys_truthy [OF assms]] obtain r w' evs where
    b: "buildPackage e k w = (r, w')" "\<forall>c. r \<noteq> Exit c"
       "trace w' = trace w @
          MkdirSync (join (join distDir_standalone (''gsharp-'' @ k)) ''bundle'') # evs"
       "list_all quiet evs"
    by blast
  then show ?thesis
    by (cases r) (simp_all add: bind_def ret_def)
qed

lemma for_each_stops:
  assumes "\<And>k w. k \<in> set ks \<Longrightarrow>
      \<exists>r w' evs. body k w = (r, w') \<and> (\<forall>c. r \<noteq> Exit c) \<and>
         trace w' = trace w @ MkdirSync (g k) # evs \<and> list_all quiet evs"
  shows "\<exists>r w' evs n. for_each ks body w = (r, w') \<and> (\<forall>c. r \<noteq> Exit c) \<and>
           trace w' = trace w @ evs \<and> n \<le> length ks \<and>
           mkdir_calls evs = map g (take n ks) \<and> \<not> list_ex is_unknown_platform evs \<and>
           (r = Ok () \<longrightarrow> n = length ks)"
  using assms
proof (induction ks arbitrary: w)
  case Nil
  show ?case by (simp add: ret_def)
next
  case (Cons k ks)
  from Cons.prems [of k w] obtain r1 w1 evs1 where
    1: "body k w = (r1, w1)" "\<forall>c. r1 \<noteq> Exit c"
       "trace w1 = trace w @ MkdirSync (g k) # evs1" "list_all quiet evs1"
    by auto
  show ?case
  proof (cases r1)
    case (Ok u)
    from Cons.IH [of w1] Cons.prems obtain r2 w2 evs2 n where
      2: "for_each ks body w1 = (r2, w2)" "\<forall>c. r2 \<noteq> Exit c" "trace w2 = trace w1 @ evs2"
         "n \<le> length ks" "mkdir_calls evs2 = map g (take n ks)"
         "\<not> list_ex is_unknown_platform evs2" "r2 = Ok () \<longrightarrow> n = length ks"
      by (metis list.set_intros(2))
    have a: "for_each (k # ks) body w = (r2, w2)"
      using 1 2 Ok by (simp add: seq_def bind_def)
    have b: "trace w2 = trace w @ (MkdirSync (g k) # evs1 @ evs2)"
      using 1 2 by simp
    have c: "mkdir_calls (MkdirSync (g k) # evs1 @ evs2) = map g (take (Suc n) (k # ks))"
      using 1 2 by (simp add: mkdir_calls_append quiet_no_mkdir)
    have d: "\<not> list_ex is_unknown_platform (MkdirSync (g k) # evs1 @ evs2)"
      using 1 2 quiet_known [of evs1] by simp
    have e: "Suc n \<le> length (k # ks)" "r2 = Ok () \<longrightarrow> Suc n = length (k # ks)"
      using 2 by simp_all
    from a b c d e 2(2) show ?thesis by blast
  next
    case (Throw err)
    have a: "for_each (k # ks) body w = (Throw err, w1)"
      using 1 Throw by (simp add: seq_def bind_def)
    have c: "mkdir_calls (MkdirSync (g k) # evs1) = map g (take (Suc 0) (k # ks))"
      using 1 by (simp add: quiet_no_mkdir)
    have d: "\<not> list_ex is_unknown_platform (MkdirSync (g k) # evs1)"
      using 1 quiet_known [of evs1] by simp
    have e: "Suc 0 \<le> length (k # ks)" by simp
    from a 1(3) c d e show ?thesis by blast
  next
    case (Exit c)
    with 1 show ?thesis by simp
  qed
qed

lemma select_standalone_all:
  assumes "''--all'' \<in> set args"
  shows "\<exists>r w' evs n. select_standalone e args w = (r, w') \<and> (\<forall>c. r \<noteq> Exit c) \<and>
           trace w' = trace w @ evs \<and> n \<le> length (object_keys platforms) \<and>
           mkdir_calls evs =
             map (\<lambda>k. join (join distDir_standalone (''gsharp-'' @ k)) ''bundle'')
               (take n (object_keys platforms)) \<and>
           \<not> list_ex is_unknown_platform evs \<and>
           (r = Ok () \<longrightarrow> n = length (object_keys platforms))"
proof -
  define w0 where
    "w0 = w\<lparr>trace := trace w @ [ConsoleLog ''Building packages for all platforms...'']\<rparr>"
  let ?body = "\<lambda>platform. bind (buildPackage e platform) (\<lambda>r. ret ())"
  let ?g = "\<lambda>k. join (join distDir_standalone (''gsharp-'' @ k)) ''bundle''"
  have s: "select_standalone e args w = for_each (object_keys platforms) ?body w0"
    using assms by (simp add: select_standalone_def seq_def bind_def console_log_apply w0_def)
  from for_each_stops [of "object_keys platforms" ?body ?g w0] build_step_attempt
  obtain r w' evs n where
    "for_each (object_keys platforms) ?body w0 = (r, w')" "\<forall>c. r \<noteq> Exit c"
    "trace w' = trace w0 @ evs" "n \<le> length (object_keys platforms)"
    "mkdir_calls evs = map ?g (take n (object_keys platforms))"
    "\<not> list_ex is_unknown_platform evs" "r = Ok () \<longrightarrow> n = length (object_keys platforms)"
    by blast
  then show ?thesis
    using s by (simp add: w0_def) blast
qed

lemma for_each_first_failure:
  assumes "for_each ks body w = (Ok (), wp)" "body p wp = (r, w')" "r \<noteq> Ok ()"
  shows "for_each (ks @ p # ks') body w = (r, w')"
  using assms
  by (cases r) (simp_all add: for_each_append seq_def bind_def)

subsection \<open>The preparation stage\<close>

lemma no_exit_clean_dist_single: "no_exit clean_dist_single"
  unfolding clean_dist_single_def
  by (intro no_exit_seq no_exit_bind no_exit_if no_exit_prims no_exit_ret)

lemma no_exit_ensureBundle_single: "no_exit (ensureBundle_single e)"
  unfolding ensureBundle_single_def Let_def
  by (intro no_exit_seq no_exit_bind no_exit_if no_exit_prims no_exit_ret no_exit_console
      no_exit_run_single)

lemma prepare_single_exit:
  assumes "prepare_single e w = (Exit c, w')"
  shows "c = 1"
proof (cases "status (fst (child e ''bun'' [''--version''] (files w))) = Some 0")
  case True
  have "no_exit (seq (console_log s) (seq clean_dist_single (ensureBundle_single e)))" for s
    by (intro no_exit_seq no_exit_console no_exit_clean_dist_single
        no_exit_ensureBundle_single)
  moreover from assms True have "\<exists>s w1.
      seq (console_log s) (seq clean_dist_single (ensureBundle_single e)) w1 = (Exit c, w')"
    by (auto simp: prepare_single_def bind_def spawnSync_apply)
  ultimately show ?thesis
    by (metis fst_conv no_exit_def)
next
  case False
  then show ?thesis
    using assms
    by (simp add: prepare_single_def bind_def seq_def spawnSync_apply console_error_apply
        process_exit_def)
qed

lemma ensureBundle_standalone_exit:
  assumes "ensureBundle_standalone e w = (Exit c, w')"
  shows "c = 1"
  using assms
  by (simp add: ensureBundle_standalone_def run_standalone_def run_simps
      split: if_splits)

lemma prepare_standalone_exit:
  assumes "prepare_standalone e w = (Exit c, w')"
  shows "c = 1"
proof (cases "ensureBundle_standalone e w")
  case (Pair r w1)
  show ?thesis
  proof (cases r)
    case (Ok x)
    with Pair assms have "mkdirSync distDir_standalone w1 = (Exit c, w')"
      by (simp add: prepare_standalone_def seq_def bind_def)
    then show ?thesis
      using no_exit_prims(4) by (metis fst_conv no_exit_def)
  next
    case (Throw err)
    with Pair assms show ?thesis
      by (simp add: prepare_standalone_def seq_def bind_def)
  next
    case (Exit c')
    with Pair assms have "c' = c"
      by (simp add: prepare_standalone_def seq_def bind_def)
    with Pair Exit show ?thesis
      using ensureBundle_standalone_exit by blast
  qed
qed

lemma unknown_key_both_tables:
  "js_get targets key = Undefined \<Longrightarrow> js_get platforms key = Undefined"
  by (auto simp: js_get_def targets_def platforms_def split: if_splits)

lemma select_single_unknown:
  assumes "''--all'' \<notin> set args" "find (\<lambda>a. \<not> startsWith a ''--'') args = Some key"
    "key \<noteq> []" "js_get targets key = Undefined"
  shows "select_single e args b w =
     (Exit 1, w\<lparr>trace := trace w @
        [ConsoleError (''Unknown platform: '' @ key),
         ConsoleLog ''Available: linux-x64, linux-arm64, mac-x64, mac-arm64, win-x64'']\<rparr>)"
  using assms
  by (simp add: select_single_def seq_def bind_def console_error_apply console_log_apply
      process_exit_def object_keys_def targets_def)

lemma select_standalone_unknown:
  assumes "''--all'' \<notin> set args" "find (\<lambda>a. \<not> startsWith a ''--'') args = Some key"
    "key \<noteq> []" "js_get platforms key = Undefined"
  shows "select_standalone e args w =
     (Exit 1, w\<lparr>trace := trace w @
        [ConsoleError (''Unknown platform: '' @ key),
         ConsoleLog ''Available: linux-x64, linux-arm64, mac-x64, mac-arm64, win-x64'']\<rparr>)"
  using assms
  by (simp add: select_standalone_def seq_def bind_def console_error_apply console_log_apply
      process_exit_def object_keys_def platforms_def)

subsection \<open>Cleaning the output root\<close>

lemma distDir_single_eq: "distDir_single = [''dist-single'']"
  by (simp add: distDir_single_def join_def rootDir_def segments_simps)

lemma parent_closed_absent:
  assumes "parent_closed fs" "node_at fs p = None" "prefix p q"
  shows "node_at fs q = None"
  using assms(3)
proof (induction q rule: rev_induct)
  case Nil
  with assms(2) show ?case by (simp add: node_at_def)
next
  case (snoc c q')
  show ?case
  proof (cases "p = q' @ [c]")
    case True
    with assms(2) show ?thesis by simp
  next
    case False
    with snoc.prems have "prefix p q'" by (simp add: prefix_snoc)
    then have none: "node_at fs q' = None" by (rule snoc.IH)
    show ?thesis
    proof (rule ccontr)
      assume "node_at fs (q' @ [c]) \<noteq> None"
      then obtain n where "map_of fs (q' @ [c]) = Some n"
        by (auto simp: node_at_def)
      then have "(q' @ [c], n) \<in> set fs" by (rule map_of_SomeD)
      with assms(1) have "node_at fs (butlast (q' @ [c])) = Some Dir"
        by (auto simp: parent_closed_def list_all_iff)
      with none show False by simp
    qed
  qed
qed

lemma clean_dist_single_result:
  assumes "parent_closed (files w)"
  shows "\<exists>w'. clean_dist_single w = (Ok (), w') \<and> empty_dir (files w') distDir_single \<and>
        (\<forall>q. \<not> prefix distDir_single q \<longrightarrow> node_at (files w') q = node_at (files w) q) \<and>
        trace w' = trace w @ [ExistsSync distDir_single] @
          (if node_at (files w) distDir_single \<noteq> None then [RmSync distDir_single] else []) @
          [MkdirSync distDir_single]"
proof (cases "node_at (files w) distDir_single = None")
  case True
  define w' where "w' = \<lparr>files = add_dir (files w) distDir_single,
      trace = trace w @ [ExistsSync distDir_single, MkdirSync distDir_single]\<rparr>"
  have run: "clean_dist_single w = (Ok (), w')"
    using True
    by (simp add: clean_dist_single_def seq_def bind_def existsSync_apply ret_def
        mkdirSync_apply ancestors_and_self_def distDir_single_eq w'_def)
  have below: "node_at (files w) q = None" if "prefix distDir_single q" for q
    using assms True that by (rule parent_closed_absent)
  have "empty_dir (files w') distDir_single"
    using True below
    by (auto simp: empty_dir_def w'_def node_at_add_dir strict_prefix_def)
  moreover have "\<forall>q. \<not> prefix distDir_single q \<longrightarrow> node_at (files w') q = node_at (files w) q"
    by (auto simp: w'_def node_at_add_dir)
  ultimately show ?thesis
    using run True by (simp add: w'_def)
next
  case False
  define fs1 where "fs1 = filter (\<lambda>(q, n). \<not> prefix distDir_single q) (files w)"
  define w' where "w' = \<lparr>files = add_dir fs1 distDir_single,
      trace = trace w @ [ExistsSync distDir_single, RmSync distDir_single,
                         MkdirSync distDir_single]\<rparr>"
  have n1: "node_at fs1 q = (if prefix distDir_single q then None else node_at (files w) q)"
    for q
    by (auto simp: fs1_def node_at_remove distDir_single_eq)
  have run: "clean_dist_single w = (Ok (), w')"
    using False n1 [of distDir_single]
    by (simp add: clean_dist_single_def seq_def bind_def existsSync_apply ret_def
        rmSync_apply mkdirSync_apply ancestors_and_self_def distDir_single_eq w'_def
        fs1_def)
  have "empty_dir (files w') distDir_single"
    by (auto simp: empty_dir_def w'_def node_at_add_dir n1 strict_prefix_def)
  moreover have "\<forall>q. \<not> prefix distDir_single q \<longrightarrow> node_at (files w') q = node_at (files w) q"
    by (auto simp: w'_def node_at_add_dir n1)
  ultimately show ?thesis
    using run False by (simp add: w'_def)
qed

subsection \<open>What building a package keeps\<close>

lemma preserves_case_option:
  "preserves R a \<Longrightarrow> (\<And>x. preserves R (f x)) \<Longrightarrow>
   preserves R (case v of None \<Rightarrow> a | Some x \<Rightarrow> f x)"
  by (cases v) simp_all

lemma copyNativeAddons_standalone_preserves:
  assumes "reflp R" "transp R"
    and "\<And>s. preserves R (console_log s)" "\<And>s. preserves R (console_warn s)"
    and "\<And>p. preserves R (existsSync p)" "\<And>p. preserves R (readdirSync p)"
    and "\<And>src file. preserves R (copyFileSync src (join destDir file))"
  shows "preserves R (copyNativeAddons_standalone platform destDir)"
proof (cases "js_get ptyMap platform")
  case (Own pkg)
  show ?thesis
    unfolding copyNativeAddons_standalone_def Let_def Own jsprop.case
    by (intro preserves_bind preserves_seq preserves_try_catch preserves_for_each
        preserves_if preserves_ret preserves_throw assms)
next
  case Proto
  show ?thesis
    unfolding copyNativeAddons_standalone_def Let_def Proto jsprop.case
    by (intro preserves_try_catch preserves_if preserves_ret preserves_throw assms)
next
  case Undefined
  show ?thesis
    unfolding copyNativeAddons_standalone_def Let_def Undefined jsprop.case
    by (intro preserves_try_catch preserves_if preserves_ret preserves_throw assms)
qed

lemma createLauncher_preserves:
  assumes "transp R"
    and "\<And>name content mode.
      name \<in> (if isWindows then {''gsharp.cmd'', ''gemini-sharp.cmd''}
              else {''gsharp'', ''gemini-sharp''}) \<Longrightarrow>
      preserves R (writeFileSync (join platformDir name) content mode)"
  shows "preserves R (createLauncher platformDir isWindows)"
  unfolding createLauncher_def Let_def
  by (cases isWindows) (use assms in \<open>auto intro!: preserves_seq\<close>)

lemma buildPackage_preserves:
  assumes "reflp R" "transp R"
    and "\<And>s. preserves R (console_log s)" "\<And>s. preserves R (console_warn s)"
    and "\<And>s. preserves R (console_error s)"
    and "\<And>p. preserves R (existsSync p)" "\<And>p. preserves R (readdirSync p)"
    and "preserves R (mkdirSync (join (join distDir_standalone (''gsharp-'' @ k)) ''bundle''))"
    and "\<And>src file. preserves R
      (copyFileSync src (join (join (join distDir_standalone (''gsharp-'' @ k)) ''bundle'') file))"
    and "\<And>name content mode.
      name \<in> {''README.txt''} \<union>
        (if startsWith k ''win'' then {''gsharp.cmd'', ''gemini-sharp.cmd''}
         else {''gsharp'', ''gemini-sharp''}) \<Longrightarrow>
      preserves R (writeFileSync (join (join distDir_standalone (''gsharp-'' @ k)) name) content mode)"
  shows "preserves R (buildPackage e k)"
  unfolding buildPackage_def Let_def
  by (intro preserves_bind preserves_seq preserves_for_each preserves_if preserves_ret
      preserves_exit copyNativeAddons_standalone_preserves createLauncher_preserves assms)
    auto

lemma keeps_console:
  "preserves keeps (console_log s)" "preserves keeps (console_warn s)"
  "preserves keeps (console_error s)"
  by (simp_all add: preserves_def console_log_apply console_warn_apply console_error_apply
      keeps_def)

lemma keeps_reads: "preserves keeps (existsSync p)" "preserves keeps (readdirSync p)"
  by (simp_all add: preserves_def existsSync_apply readdirSync_apply keeps_def)

lemma keeps_mkdirSync: "preserves keeps (mkdirSync p)"
  by (simp add: preserves_def mkdirSync_apply keeps_def node_at_add_dirs)

lemma keeps_copy_at:
  assumes "trace w' = trace w @ [CopyFileSync src dst]"
    and "node_at (files w) dst \<noteq> Some Dir"
    and "\<And>q. q \<noteq> dst \<Longrightarrow> node_at (files w') q = node_at (files w) q"
  shows "keeps w w'"
proof -
  have "node_at (files w') p = Some n \<or>
        (is_file (Some n) \<and> p \<in> set (write_targets (new_events w w')) \<and>
         (is_file (node_at (files w') p) \<or> p \<in> set (copy_targets (new_events w w'))))"
    if n: "node_at (files w) p = Some n" for p n
  proof (cases "p = dst")
    case True
    with n assms(2) have "is_file (Some n)"
      by (cases n) simp_all
    with True assms(1) show ?thesis
      by (simp add: new_events_def)
  next
    case False
    with n assms(3) show ?thesis by simp
  qed
  with assms(1) show ?thesis
    by (simp add: keeps_def)
qed

lemma keeps_copyFileSync: "preserves keeps (copyFileSync src dst)"
proof -
  have "keeps w (snd (copyFileSync src dst w))" for w
  proof (cases "node_at (files w) src \<noteq> None \<and> write_check (files w) ''copyfile'' dst = None")
    case True
    then have wc: "write_check (files w) ''copyfile'' dst = None" by simp
    from write_check_None [OF wc] have d: "dst \<noteq> []" "node_at (files w) dst \<noteq> Some Dir"
      by simp_all
    show ?thesis
    proof (rule keeps_copy_at [of _ _ src dst])
      show "trace (snd (copyFileSync src dst w)) = trace w @ [CopyFileSync src dst]"
        by (simp add: copyFileSync_apply split: option.splits node.splits)
      show "node_at (files w) dst \<noteq> Some Dir" by (rule d(2))
      show "node_at (files (snd (copyFileSync src dst w))) q = node_at (files w) q"
        if "q \<noteq> dst" for q
        using that d(1)
        by (simp add: copyFileSync_apply node_at_update node_at_delete
            split: option.splits node.splits)
    qed
  next
    case False
    then have "files (snd (copyFileSync src dst w)) = files w"
      "trace (snd (copyFileSync src dst w)) = trace w @ [CopyFileSync src dst]"
      by (auto simp: copyFileSync_apply split: option.splits node.splits)
    then show ?thesis by (simp add: keeps_def)
  qed
  then show ?thesis by (simp add: preserves_def)
qed

lemma keeps_writeFileSync: "preserves keeps (writeFileSync p content mode)"
proof -
  have "keeps w (snd (writeFileSync p content mode w))" for w
  proof (cases "write_check (files w) ''open'' p")
    case None
    from write_check_None [OF this] have ne: "p \<noteq> []" "node_at (files w) p \<noteq> Some Dir"
      by simp_all
    then have "is_file (Some n')" if "node_at (files w) p = Some n'" for n'
      using that by (cases n') simp_all
    then show ?thesis
      using None ne(1)
      by (auto simp: writeFileSync_apply keeps_def node_at_update new_events_def
          split: option.splits node.splits)
  next
    case (Some err)
    then show ?thesis by (simp add: writeFileSync_apply keeps_def)
  qed
  then show ?thesis by (simp add: preserves_def)
qed

lemma keeps_buildPackage: "preserves keeps (buildPackage e k)"
  by (intro buildPackage_preserves keeps_refl keeps_trans keeps_console keeps_reads
      keeps_mkdirSync keeps_copyFileSync keeps_writeFileSync)

lemma keeps_select_standalone: "preserves keeps (select_standalone e args)"
  unfolding select_standalone_def Let_def
  by (intro preserves_if preserves_case_option preserves_seq preserves_bind
      preserves_for_each preserves_ret preserves_exit keeps_refl keeps_trans keeps_console
      keeps_buildPackage)

lemma keeps_after_bundle:
  "preserves keeps
     (seq (mkdirSync distDir_standalone)
        (seq (select_standalone e args)
           (seq (console_log s1) (console_log s2))))"
  by (intro preserves_seq keeps_trans keeps_mkdirSync keeps_select_standalone keeps_console)


subsection \<open>The entries of a package root\<close>









lemma copies_into_buildPackage:
  "preserves
     (emits (copies_into (join (join distDir_standalone (''gsharp-'' @ k)) ''bundle'')))
     (buildPackage e k)"
  by (rule buildPackage_preserves)
    (rule emits_refl emits_trans | rule emits_console emits_prims, simp add: join_def)+













subsection \<open>The calls of the standalone script\<close>

lemma into_bundle_buildPackage: "preserves (emits into_bundle) (buildPackage e k)"
proof -
  have "emits into_bundle w (snd (buildPackage e k w))" for w
  proof (rule emits_mono)
    show "emits (copies_into (join (join distDir_standalone (''gsharp-'' @ k)) ''bundle'')) w
        (snd (buildPackage e k w))"
      using copies_into_buildPackage by (simp add: preserves_def)
    show "into_bundle ev"
      if "copies_into (join (join distDir_standalone (''gsharp-'' @ k)) ''bundle'') ev" for ev
      using that by (cases ev) auto
  qed
  then show ?thesis by (simp add: preserves_def)
qed

lemma not_rm_buildPackage: "preserves (emits not_rm) (buildPackage e k)"
  by (rule buildPackage_preserves)
    (rule emits_refl emits_trans | rule emits_console emits_prims, simp)+

lemma calls_select_standalone:
  "preserves (emits into_bundle) (select_standalone e args)"
  "preserves (emits not_rm) (select_standalone e args)"
  unfolding select_standalone_def Let_def
  by (intro preserves_if preserves_case_option preserves_seq preserves_bind
      preserves_for_each preserves_ret preserves_exit emits_refl emits_trans emits_console
      into_bundle_buildPackage not_rm_buildPackage; simp)+

lemma calls_after_bundle:
  "preserves (emits into_bundle)
     (seq (mkdirSync distDir_standalone)
        (seq (select_standalone e args)
           (seq (console_log s1) (console_log s2))))"
  "preserves (emits not_rm)
     (seq (mkdirSync distDir_standalone)
        (seq (select_standalone e args)
           (seq (console_log s1) (console_log s2))))"
  by (intro preserves_seq emits_trans emits_prims emits_console calls_select_standalone;
      simp)+

lemma not_rm_ensureBundle_standalone: "preserves (emits not_rm) (ensureBundle_standalone e)"
  unfolding ensureBundle_standalone_def run_standalone_def Let_def
  by (intro preserves_seq preserves_bind preserves_if preserves_ret preserves_exit
      emits_refl emits_trans emits_console emits_prims; simp)+

lemma into_bundle_target:
  "list_all into_bundle evs \<Longrightarrow> p \<in> set (copy_targets evs) \<Longrightarrow>
   \<exists>k. prefix (join (join distDir_standalone (''gsharp-'' @ k)) ''bundle'') p"
  by (induction evs rule: copy_targets.induct) auto

section \<open>Failure tolerance with \<open>--all\<close>\<close>

text \<open>
  Claim C1. With \<^verbatim>\<open>--all\<close> the two scripts differ in failure tolerance.
  The single-file script, once its preparation has succeeded, runs to its end whatever the
  children do: an error thrown while building a platform is caught, and the directory of
  every platform of the table is asked for, in table order (each \<^verbatim>\<open>buildForPlatform\<close> starts
  with its \<^verbatim>\<open>mkdirSync\<close>). In the standalone script the first entry \<open>p\<close> whose
  \<^verbatim>\<open>buildPackage\<close> does not return (all entries \<open>ks\<close> before it having returned) ends the
  process with exit code 1 in the world that build left, and the entries attempted are
  \<open>ks\<close> and \<open>p\<close> and no later one.
\<close>

theorem all_mode_failure_tolerance:
  assumes "''--all'' \<in> set args"
  shows "(prepare_single e w0 = (Ok b, w) \<longrightarrow>
           (\<exists>w'. script_single e args w0 = (Ok (), w') \<and>
                 mkdir_calls (new_events w w') =
                   map (join distDir_single) (object_keys targets))) \<and>
         (prepare_standalone e w0 = (Ok (), w) \<and>
          object_keys platforms = ks @ p # ks' \<and>
          for_each ks (\<lambda>k. bind (buildPackage e k) (\<lambda>r. ret ()))
            (snd (console_log ''Building packages for all platforms...'' w)) = (Ok (), wp) \<and>
          buildPackage e p wp = (r, w') \<and> (\<forall>x. r \<noteq> Ok x) \<longrightarrow>
           (\<exists>r'. script_standalone e args w0 = (r', w') \<and> exit_code r' = 1 \<and>
                 mkdir_calls (new_events w w') =
                   map (\<lambda>k. join (join distDir_standalone (''gsharp-'' @ k)) ''bundle'')
                     (ks @ [p])))"
proof (intro conjI impI)
  assume prep: "prepare_single e w0 = (Ok b, w)"
  from select_single_all [OF assms, of e b w] obtain w1 evs where
    s: "select_single e args b w = (Ok (), w1)" "trace w1 = trace w @ evs"
       "mkdir_calls evs = map (join distDir_single) (object_keys targets)"
    by blast
  define w2 where "w2 = w1\<lparr>trace := trace w1 @
      [ConsoleLog ''\<newline>Done! Single-file executables are in dist-single/'']\<rparr>"
  have "script_single e args w0 = (Ok (), w2)"
    using prep s(1)
    by (simp add: script_single_def main_single_def try_catch_def bind_def seq_def
        console_log_apply w2_def)
  moreover have "new_events w w2 =
      evs @ [ConsoleLog ''\<newline>Done! Single-file executables are in dist-single/'']"
    using s(2) by (simp add: new_events_def w2_def)
  ultimately show "\<exists>w'. script_single e args w0 = (Ok (), w') \<and>
      mkdir_calls (new_events w w') = map (join distDir_single) (object_keys targets)"
    using s(3) by (simp add: mkdir_calls_append)
next
  let ?body = "\<lambda>k. bind (buildPackage e k) (\<lambda>r. ret ())"
  let ?g = "\<lambda>k. join (join distDir_standalone (''gsharp-'' @ k)) ''bundle''"
  let ?w1 = "snd (console_log ''Building packages for all platforms...'' w)"
  assume a: "prepare_standalone e w0 = (Ok (), w) \<and>
          object_keys platforms = ks @ p # ks' \<and>
          for_each ks ?body ?w1 = (Ok (), wp) \<and>
          buildPackage e p wp = (r, w') \<and> (\<forall>x. r \<noteq> Ok x)"
  then have prep: "prepare_standalone e w0 = (Ok (), w)"
    and keys: "object_keys platforms = ks @ p # ks'"
    and before: "for_each ks ?body ?w1 = (Ok (), wp)"
    and fails: "buildPackage e p wp = (r, w')" "\<forall>x. r \<noteq> Ok x"
    by simp_all
  have inks: "k \<in> set ks \<Longrightarrow> k \<in> set (object_keys platforms)" for k
    using keys by simp
  have inp: "p \<in> set (object_keys platforms)"
    using keys by simp
  from buildPackage_attempt [OF platform_keys_truthy [OF inp], of e wp] fails obtain evs2 where
    2: "\<forall>c. r \<noteq> Exit c" "trace w' = trace wp @ MkdirSync (?g p) # evs2" "list_all quiet evs2"
    by auto
  from 2(1) fails(2) obtain err where r: "r = Throw err"
    by (cases r) auto
  have step: "?body p wp = (Throw err, w')"
    using fails(1) r by (simp add: bind_def)
  have "\<exists>r w' evs. ?body k w = (r, w') \<and> (\<forall>c. r \<noteq> Exit c) \<and>
          trace w' = trace w @ MkdirSync (?g k) # evs \<and> list_all quiet evs"
    if "k \<in> set ks" for k w
    using build_step_attempt [OF inks [OF that]] by blast
  from for_each_stops [of ks ?body ?g ?w1, OF this] obtain r1 w1 evs1 n where
    "for_each ks ?body ?w1 = (r1, w1)" "trace w1 = trace ?w1 @ evs1"
    "mkdir_calls evs1 = map ?g (take n ks)" "r1 = Ok () \<longrightarrow> n = length ks"
    by blast
  with before have
    1: "trace wp = trace ?w1 @ evs1" "mkdir_calls evs1 = map ?g (take n ks)" "n = length ks"
    by simp_all
  have loop: "for_each (object_keys platforms) ?body ?w1 = (Throw err, w')"
    unfolding keys using before step by (rule for_each_first_failure) simp
  have sel: "select_standalone e args w = (Throw err, w')"
    using assms loop
    by (simp add: select_standalone_def seq_def bind_def console_log_apply)
  have run: "script_standalone e args w0 = (Throw err, w')"
    using prep sel by (simp add: script_standalone_def seq_def bind_def)
  have "new_events w w' =
      ConsoleLog ''Building packages for all platforms...'' # evs1 @ MkdirSync (?g p) # evs2"
    using 1(1) 2(2) by (simp add: new_events_def console_log_apply)
  then have "mkdir_calls (new_events w w') = map ?g (ks @ [p])"
    using 1(2,3) 2(3) by (simp add: mkdir_calls_append quiet_no_mkdir)
  with run show "\<exists>r'. script_standalone e args w0 = (r', w') \<and> exit_code r' = 1 \<and>
      mkdir_calls (new_events w w') = map ?g (ks @ [p])"
    by simp
qed

theorem all_mode_failure_tolerance_witness:
  "''--all'' \<in> set [''--all''] \<and>
   fst (prepare_single host_build_fails world_bundled) = Ok [''bundle'', ''gemini.js''] \<and>
   fst (buildForPlatform_single host_build_fails ''linux-x64'' [''bundle'', ''gemini.js'']
          (snd (prepare_single host_build_fails world_bundled))) =
     Throw (Error ''Command failed: bun build /repo/bundle/gemini.js --compile --target bun-linux-x64 --outfile /repo/dist-single/linux-x64/gsharp --minify'') \<and>
   fst (script_single host_build_fails [''--all''] world_bundled) = Ok () \<and>
   mkdir_calls (new_events (snd (prepare_single host_build_fails world_bundled))
                  (snd (script_single host_build_fails [''--all''] world_bundled))) =
     [[''dist-single'', ''linux-x64''], [''dist-single'', ''linux-arm64''],
      [''dist-single'', ''mac-x64''], [''dist-single'', ''mac-arm64''],
      [''dist-single'', ''win-x64'']] \<and>
   object_keys platforms =
     [''linux-x64''] @ ''linux-arm64'' # [''mac-x64'', ''mac-arm64'', ''win-x64''] \<and>
   fst (prepare_standalone (host ''linux'' ''x64'' (Some 0) []) world_blocked) = Ok () \<and>
   exit_code (fst (script_standalone (host ''linux'' ''x64'' (Some 0) []) [''--all'']
                     world_blocked)) = 1 \<and>
   mkdir_calls (new_events (snd (prepare_standalone (host ''linux'' ''x64'' (Some 0) [])
                                   world_blocked))
                  (snd (script_standalone (host ''linux'' ''x64'' (Some 0) []) [''--all'']
                          world_blocked))) =
     [[''dist-standalone'', ''gsharp-linux-x64'', ''bundle''],
      [''dist-standalone'', ''gsharp-linux-arm64'', ''bundle'']]"
proof -
  let ?e = "host ''linux'' ''x64'' (Some 0) []"
  let ?body = "\<lambda>k. bind (buildPackage ?e k) (\<lambda>r. ret ())"
  let ?w = "snd (prepare_standalone ?e world_blocked)"
  let ?wp = "snd (for_each [''linux-x64''] ?body
                    (snd (console_log ''Building packages for all platforms...'' ?w)))"
  have all: "''--all'' \<in> set [''--all'']"
    by simp
  have prep1: "prepare_single host_build_fails world_bundled =
      (Ok [''bundle'', ''gemini.js''], snd (prepare_single host_build_fails world_bundled))"
    by (simp add: prepare_single_def clean_dist_single_def ensureBundle_single_def
        run_single_def host_build_fails_def world_bundled_def eval_simps)
  have fail1: "fst (buildForPlatform_single host_build_fails ''linux-x64''
        [''bundle'', ''gemini.js''] (snd (prepare_single host_build_fails world_bundled))) =
      Throw (Error ''Command failed: bun build /repo/bundle/gemini.js --compile --target bun-linux-x64 --outfile /repo/dist-single/linux-x64/gsharp --minify'')"
    by (simp add: buildForPlatform_single_def prepare_single_def clean_dist_single_def
        ensureBundle_single_def run_single_def host_build_fails_def world_bundled_def
        eval_simps)
  have keys: "object_keys platforms =
      [''linux-x64''] @ ''linux-arm64'' # [''mac-x64'', ''mac-arm64'', ''win-x64'']"
    by (simp add: object_keys_def platforms_def)
  have prep2: "prepare_standalone ?e world_blocked = (Ok (), ?w)"
    by (simp add: prepare_standalone_def ensureBundle_standalone_def run_standalone_def
        host_def world_blocked_def eval_simps)
  have before: "for_each [''linux-x64''] ?body
      (snd (console_log ''Building packages for all platforms...'' ?w)) = (Ok (), ?wp)"
    by (simp add: buildPackage_def copyNativeAddons_standalone_def createLauncher_def
        prepare_standalone_def ensureBundle_standalone_def run_standalone_def host_def
        world_blocked_def eval_simps)
  have fail2: "buildPackage ?e ''linux-arm64'' ?wp =
      (Throw (SystemError ENOTDIR ''mkdir'' [''dist-standalone'', ''gsharp-linux-arm64'', ''bundle'']),
       snd (buildPackage ?e ''linux-arm64'' ?wp))"
    by (simp add: buildPackage_def copyNativeAddons_standalone_def createLauncher_def
        prepare_standalone_def ensureBundle_standalone_def run_standalone_def host_def
        world_blocked_def eval_simps)
  from all_mode_failure_tolerance [where e = host_build_fails and ?w0.0 = world_bundled
      and b = "[''bundle'', ''gemini.js'']"
      and w = "snd (prepare_single host_build_fails world_bundled)", OF all]
    prep1
  obtain w' where single:
    "script_single host_build_fails [''--all''] world_bundled = (Ok (), w')"
    "mkdir_calls (new_events (snd (prepare_single host_build_fails world_bundled)) w') =
       map (join distDir_single) (object_keys targets)"
    by blast
  from all_mode_failure_tolerance [where e = ?e and ?w0.0 = world_blocked and w = ?w
      and ks = "[''linux-x64'']" and p = "''linux-arm64''"
      and ks' = "[''mac-x64'', ''mac-arm64'', ''win-x64'']" and wp = ?wp
      and r = "Throw (SystemError ENOTDIR ''mkdir''
                 [''dist-standalone'', ''gsharp-linux-arm64'', ''bundle''])"
      and w' = "snd (buildPackage ?e ''linux-arm64'' ?wp)", OF all]
    prep2 keys before fail2
  obtain r' where alone:
    "script_standalone ?e [''--all''] world_blocked =
       (r', snd (buildPackage ?e ''linux-arm64'' ?wp))"
    "exit_code r' = 1"
    "mkdir_calls (new_events ?w (snd (buildPackage ?e ''linux-arm64'' ?wp))) =
       map (\<lambda>k. join (join distDir_standalone (''gsharp-'' @ k)) ''bundle'')
         ([''linux-x64''] @ [''linux-arm64''])"
    by blast
  have "fst (script_single host_build_fails [''--all''] world_bundled) = Ok ()"
    "mkdir_calls (new_events (snd (prepare_single host_build_fails world_bundled))
                  (snd (script_single host_build_fails [''--all''] world_bundled))) =
     [[''dist-single'', ''linux-x64''], [''dist-single'', ''linux-arm64''],
      [''dist-single'', ''mac-x64''], [''dist-single'', ''mac-arm64''],
      [''dist-single'', ''win-x64'']]"
    using single
    by (simp_all add: object_keys_def targets_def join_def segments_def distDir_single_def
        rootDir_def)
  moreover have "fst (prepare_single host_build_fails world_bundled) =
      Ok [''bundle'', ''gemini.js'']"
    using prep1 by (metis fst_conv)
  moreover have "fst (prepare_standalone ?e world_blocked) = Ok ()"
    using prep2 by (metis fst_conv)
  moreover have "exit_code (fst (script_standalone ?e [''--all''] world_blocked)) = 1"
    "mkdir_calls (new_events ?w (snd (script_standalone ?e [''--all''] world_blocked))) =
     [[''dist-standalone'', ''gsharp-linux-x64'', ''bundle''],
      [''dist-standalone'', ''gsharp-linux-arm64'', ''bundle'']]"
    using alone
    by (simp_all add: join_def segments_def distDir_standalone_def rootDir_def)
  ultimately show ?thesis
    using all fail1 keys by blast
qed

section \<open>Host-platform detection\<close>

text \<open>
  Claim C2. In both scripts the host platform key is determined by the pair of operating
  system and architecture alone: \<open>win32\<close> with any architecture gives \<open>win-x64\<close>; \<open>darwin\<close>
  gives \<open>mac-arm64\<close> on \<open>arm64\<close> and \<open>mac-x64\<close> otherwise; any other system gives
  \<open>linux-arm64\<close> on \<open>arm64\<close> and \<open>linux-x64\<close> otherwise.
\<close>

theorem getCurrentPlatform_decision:
  "(process_platform e' = process_platform e \<and> process_arch e' = process_arch e \<longrightarrow>
      getCurrentPlatform_single e' = getCurrentPlatform_single e \<and>
      getCurrentPlatform_standalone e' = getCurrentPlatform_standalone e) \<and>
   (process_platform e = ''win32'' \<longrightarrow>
      getCurrentPlatform_single e = ''win-x64'' \<and>
      getCurrentPlatform_standalone e = ''win-x64'') \<and>
   (process_platform e = ''darwin'' \<and> process_arch e = ''arm64'' \<longrightarrow>
      getCurrentPlatform_single e = ''mac-arm64'' \<and>
      getCurrentPlatform_standalone e = ''mac-arm64'') \<and>
   (process_platform e = ''darwin'' \<and> process_arch e \<noteq> ''arm64'' \<longrightarrow>
      getCurrentPlatform_single e = ''mac-x64'' \<and>
      getCurrentPlatform_standalone e = ''mac-x64'') \<and>
   (process_platform e \<noteq> ''win32'' \<and> process_platform e \<noteq> ''darwin'' \<and>
    process_arch e = ''arm64'' \<longrightarrow>
      getCurrentPlatform_single e = ''linux-arm64'' \<and>
      getCurrentPlatform_standalone e = ''linux-arm64'') \<and>
   (process_platform e \<noteq> ''win32'' \<and> process_platform e \<noteq> ''darwin'' \<and>
    process_arch e \<noteq> ''arm64'' \<longrightarrow>
      getCurrentPlatform_single e = ''linux-x64'' \<and>
      getCurrentPlatform_standalone e = ''linux-x64'')"
  by (simp add: getCurrentPlatform_single_def getCurrentPlatform_standalone_def)

theorem getCurrentPlatform_decision_witness:
  "getCurrentPlatform_single (host ''win32'' ''arm64'' None []) = ''win-x64'' \<and>
   getCurrentPlatform_standalone (host ''win32'' ''arm64'' None []) = ''win-x64'' \<and>
   getCurrentPlatform_single (host ''darwin'' ''arm64'' None []) = ''mac-arm64'' \<and>
   getCurrentPlatform_standalone (host ''darwin'' ''arm64'' None []) = ''mac-arm64'' \<and>
   getCurrentPlatform_single (host ''darwin'' ''x64'' None []) = ''mac-x64'' \<and>
   getCurrentPlatform_standalone (host ''darwin'' ''x64'' None []) = ''mac-x64'' \<and>
   getCurrentPlatform_single (host ''freebsd'' ''arm64'' None []) = ''linux-arm64'' \<and>
   getCurrentPlatform_standalone (host ''freebsd'' ''arm64'' None []) = ''linux-arm64'' \<and>
   getCurrentPlatform_single (host ''linux'' ''ia32'' None []) = ''linux-x64'' \<and>
   getCurrentPlatform_standalone (host ''linux'' ''ia32'' None []) = ''linux-x64'' \<and>
   getCurrentPlatform_single (host ''linux'' ''ia32'' (Some 0) ''x'') =
     getCurrentPlatform_single (host ''linux'' ''ia32'' None [])"
  using getCurrentPlatform_decision [of "host ''win32'' ''arm64'' None []" "host ''win32'' ''arm64'' None []"]
    getCurrentPlatform_decision [of "host ''darwin'' ''arm64'' None []" "host ''darwin'' ''arm64'' None []"]
    getCurrentPlatform_decision [of "host ''darwin'' ''x64'' None []" "host ''darwin'' ''x64'' None []"]
    getCurrentPlatform_decision [of "host ''freebsd'' ''arm64'' None []" "host ''freebsd'' ''arm64'' None []"]
    getCurrentPlatform_decision [of "host ''linux'' ''ia32'' (Some 0) ''x''" "host ''linux'' ''ia32'' None []"]
  by (simp add: host_def)

section \<open>An unknown platform key\<close>

text \<open>
  Claim C3, as the spec states it, has the driver leave the file system untouched when the
  platform key is unknown. Both scripts validate the key only after their preparation: the
  single-file script has by then removed and recreated its output root (a file of an earlier
  run is gone), the standalone script has created its output root.
\<close>

theorem unknown_platform_touches_files_counterexample:
  "''bogus'' \<notin> set (object_keys targets) \<and> ''--all'' \<notin> set [''bogus''] \<and>
   node_at (files world_stale) [''dist-single'', ''old-build''] = Some (File ''stale'' 493) \<and>
   script_single (host ''linux'' ''x64'' (Some 0) ''1.2.3'') [''bogus''] world_stale =
     (Exit 1,
      \<lparr>files =
         [([''bundle''], Dir),
          ([''bundle'', ''gemini.js''], File ''//js'' 420),
          ([''dist-single''], Dir)],
       trace =
         [SpawnSync ''bun'' [''--version''],
          ConsoleLog ''Using Bun 1.2.3'',
          ExistsSync [''dist-single''],
          RmSync [''dist-single''],
          MkdirSync [''dist-single''],
          ExistsSync [''bundle'', ''gemini.js''],
          ConsoleError ''Unknown platform: bogus'',
          ConsoleLog ''Available: linux-x64, linux-arm64, mac-x64, mac-arm64, win-x64'']\<rparr>) \<and>
   node_at (files world_bundled) [''dist-standalone''] = None \<and>
   script_standalone (host ''linux'' ''x64'' (Some 0) ''1.2.3'') [''bogus''] world_bundled =
     (Exit 1,
      \<lparr>files =
         [([''bundle''], Dir),
          ([''bundle'', ''gemini.js''], File ''//js'' 420),
          ([''dist-standalone''], Dir)],
       trace =
         [ExistsSync [''bundle'', ''gemini.js''],
          MkdirSync [''dist-standalone''],
          ConsoleError ''Unknown platform: bogus'',
          ConsoleLog ''Available: linux-x64, linux-arm64, mac-x64, mac-arm64, win-x64'']\<rparr>)"
  by (simp add: script_single_def main_single_def prepare_single_def clean_dist_single_def
      ensureBundle_single_def select_single_def script_standalone_def prepare_standalone_def
      ensureBundle_standalone_def select_standalone_def host_def world_stale_def
      world_bundled_def eval_simps)

text \<open>
  Claim C3, amended. Let the first argument that does not start with \<^verbatim>\<open>--\<close> be non-empty and
  neither a key of the platform table nor the name of a property that the table inherits
  from \<^verbatim>\<open>Object.prototype\<close>, and let \<^verbatim>\<open>--all\<close> be absent. Then either script ends with exit code 1.
  When its preparation succeeds (toolchain check, clean output root and bundle in the
  single-file script; bundle and output root in the standalone script), the script prints
  the unknown-platform error and the list of the valid keys in table order and exits; after
  the preparation it makes no further call and the file tree stays as the preparation left
  it. The file-system changes of a run with an unknown key are those of the preparation.
\<close>

theorem unknown_platform_exit:
  assumes "''--all'' \<notin> set args"
    and "find (\<lambda>a. \<not> startsWith a ''--'') args = Some key"
    and "key \<noteq> []"
    and "js_get targets key = Undefined"
  shows "exit_code (fst (script_single e args w)) = 1 \<and>
         exit_code (fst (script_standalone e args w)) = 1 \<and>
         (prepare_single e w = (Ok b, w1) \<longrightarrow>
            script_single e args w =
              (Exit 1, w1\<lparr>trace := trace w1 @
                 [ConsoleError (''Unknown platform: '' @ key),
                  ConsoleLog
                    ''Available: linux-x64, linux-arm64, mac-x64, mac-arm64, win-x64'']\<rparr>)) \<and>
         (prepare_standalone e w = (Ok (), w2) \<longrightarrow>
            script_standalone e args w =
              (Exit 1, w2\<lparr>trace := trace w2 @
                 [ConsoleError (''Unknown platform: '' @ key),
                  ConsoleLog
                    ''Available: linux-x64, linux-arm64, mac-x64, mac-arm64, win-x64'']\<rparr>))"
proof -
  note sel1 = select_single_unknown [OF assms]
  note sel2 = select_standalone_unknown [OF assms(1-3) unknown_key_both_tables [OF assms(4)]]
  have single: "script_single e args w =
      (Exit 1, w1\<lparr>trace := trace w1 @
         [ConsoleError (''Unknown platform: '' @ key),
          ConsoleLog ''Available: linux-x64, linux-arm64, mac-x64, mac-arm64, win-x64'']\<rparr>)"
    if "prepare_single e w = (Ok b, w1)" for b w1
    using that by (simp add: script_single_def main_single_def try_catch_def bind_def seq_def sel1)
  have alone: "script_standalone e args w =
      (Exit 1, w2\<lparr>trace := trace w2 @
         [ConsoleError (''Unknown platform: '' @ key),
          ConsoleLog ''Available: linux-x64, linux-arm64, mac-x64, mac-arm64, win-x64'']\<rparr>)"
    if "prepare_standalone e w = (Ok (), w2)" for w2
    using that by (simp add: script_standalone_def bind_def seq_def sel2)
  have code1: "exit_code (fst (script_single e args w)) = 1"
  proof (cases "prepare_single e w")
    case (Pair r w')
    show ?thesis
    proof (cases r)
      case (Ok x)
      with Pair single show ?thesis by simp
    next
      case (Throw err)
      with Pair show ?thesis
        by (simp add: script_single_def main_single_def try_catch_def bind_def seq_def
            console_error_object_apply process_exit_def)
    next
      case (Exit c)
      with Pair prepare_single_exit have "c = 1" by blast
      with Pair Exit show ?thesis
        by (simp add: script_single_def main_single_def try_catch_def bind_def)
    qed
  qed
  have code2: "exit_code (fst (script_standalone e args w)) = 1"
  proof (cases "prepare_standalone e w")
    case (Pair r w')
    show ?thesis
    proof (cases r)
      case (Ok x)
      with Pair alone show ?thesis by simp
    next
      case (Throw err)
      with Pair show ?thesis
        by (simp add: script_standalone_def bind_def seq_def)
    next
      case (Exit c)
      with Pair prepare_standalone_exit have "c = 1" by blast
      with Pair Exit show ?thesis
        by (simp add: script_standalone_def bind_def seq_def)
    qed
  qed
  from single alone code1 code2 show ?thesis by blast
qed

theorem unknown_platform_exit_witness:
  "''--all'' \<notin> set [''--verbose'', ''bogus''] \<and>
   find (\<lambda>a. \<not> startsWith a ''--'') [''--verbose'', ''bogus''] = Some ''bogus'' \<and>
   ''bogus'' \<noteq> [] \<and> js_get targets ''bogus'' = Undefined \<and>
   fst (prepare_single (host ''linux'' ''x64'' (Some 0) ''1.2.3'') world_stale) =
     Ok [''bundle'', ''gemini.js''] \<and>
   fst (prepare_standalone (host ''linux'' ''x64'' (Some 0) ''1.2.3'') world_bundled) = Ok () \<and>
   exit_code (fst (script_single (host ''linux'' ''x64'' (Some 0) ''1.2.3'')
                     [''--verbose'', ''bogus''] world_stale)) = 1 \<and>
   new_events (snd (prepare_single (host ''linux'' ''x64'' (Some 0) ''1.2.3'') world_stale))
     (snd (script_single (host ''linux'' ''x64'' (Some 0) ''1.2.3'')
             [''--verbose'', ''bogus''] world_stale)) =
     [ConsoleError ''Unknown platform: bogus'',
      ConsoleLog ''Available: linux-x64, linux-arm64, mac-x64, mac-arm64, win-x64''] \<and>
   exit_code (fst (script_standalone (host ''linux'' ''x64'' (Some 0) ''1.2.3'')
                     [''--verbose'', ''bogus''] world_bundled)) = 1 \<and>
   new_events (snd (prepare_standalone (host ''linux'' ''x64'' (Some 0) ''1.2.3'')
                      world_bundled))
     (snd (script_standalone (host ''linux'' ''x64'' (Some 0) ''1.2.3'')
             [''--verbose'', ''bogus''] world_bundled)) =
     [ConsoleError ''Unknown platform: bogus'',
      ConsoleLog ''Available: linux-x64, linux-arm64, mac-x64, mac-arm64, win-x64'']"
proof -
  let ?e = "host ''linux'' ''x64'' (Some 0) ''1.2.3''"
  let ?args = "[''--verbose'', ''bogus'']"
  have h1: "''--all'' \<notin> set ?args"
    by simp
  have h2: "find (\<lambda>a. \<not> startsWith a ''--'') ?args = Some ''bogus''"
    by (simp add: startsWith_def)
  have h3: "''bogus'' \<noteq> []"
    by simp
  have h4: "js_get targets ''bogus'' = Undefined"
    by (simp add: js_get_def targets_def object_prototype_keys_def)
  have p1: "prepare_single ?e world_stale =
      (Ok [''bundle'', ''gemini.js''], snd (prepare_single ?e world_stale))"
    by (simp add: prepare_single_def clean_dist_single_def ensureBundle_single_def host_def
        world_stale_def eval_simps)
  have p2: "prepare_standalone ?e world_bundled =
      (Ok (), snd (prepare_standalone ?e world_bundled))"
    by (simp add: prepare_standalone_def ensureBundle_standalone_def host_def
        world_bundled_def eval_simps)
  note single = unknown_platform_exit [OF h1 h2 h3 h4, where e = ?e and w = world_stale
      and b = "[''bundle'', ''gemini.js'']" and ?w1.0 = "snd (prepare_single ?e world_stale)"]
  note alone = unknown_platform_exit [OF h1 h2 h3 h4, where e = ?e and w = world_bundled
      and ?w2.0 = "snd (prepare_standalone ?e world_bundled)"]
  have "exit_code (fst (script_single ?e ?args world_stale)) = 1"
    using single by blast
  moreover have "new_events (snd (prepare_single ?e world_stale))
      (snd (script_single ?e ?args world_stale)) =
      [ConsoleError ''Unknown platform: bogus'',
       ConsoleLog ''Available: linux-x64, linux-arm64, mac-x64, mac-arm64, win-x64'']"
    using single p1 by (simp add: new_events_def)
  moreover have "exit_code (fst (script_standalone ?e ?args world_bundled)) = 1"
    using alone by blast
  moreover have "new_events (snd (prepare_standalone ?e world_bundled))
      (snd (script_standalone ?e ?args world_bundled)) =
      [ConsoleError ''Unknown platform: bogus'',
       ConsoleLog ''Available: linux-x64, linux-arm64, mac-x64, mac-arm64, win-x64'']"
    using alone p2 by (simp add: new_events_def)
  moreover have "fst (prepare_single ?e world_stale) = Ok [''bundle'', ''gemini.js'']"
    using p1 by (metis fst_conv)
  moreover have "fst (prepare_standalone ?e world_bundled) = Ok ()"
    using p2 by (metis fst_conv)
  ultimately show ?thesis
    using h1 h2 h3 h4 by blast
qed

section \<open>The bundle locator\<close>

text \<open>
  Claim C4, as the spec states it, has \<^verbatim>\<open>ensureBundle\<close> check again that the bundle file exists
  after the bundle command has run. Neither script does: on a repository without a bundle,
  with an \<^verbatim>\<open>npm\<close> that exits 0 and writes nothing, \<^verbatim>\<open>ensureBundle\<close> returns the bundle path
  normally, its last call is the spawn, and the file still does not exist.
\<close>

theorem ensureBundle_no_recheck_counterexample:
  "ensureBundle_single (host ''linux'' ''x64'' (Some 0) []) world_empty =
     (Ok [''bundle'', ''gemini.js''],
      \<lparr>files = [],
       trace = [ExistsSync [''bundle'', ''gemini.js''],
                ConsoleLog ''Bundle not found, building...'',
                ConsoleLog ''> npm run bundle'',
                SpawnSync ''npm'' [''run'', ''bundle'']]\<rparr>) \<and>
   ensureBundle_standalone (host ''linux'' ''x64'' (Some 0) []) world_empty =
     (Ok [''bundle'', ''gemini.js''],
      \<lparr>files = [],
       trace = [ExistsSync [''bundle'', ''gemini.js''],
                ConsoleLog ''Bundle not found, building...'',
                ConsoleLog ''> npm run bundle'',
                SpawnSync ''npm'' [''run'', ''bundle'']]\<rparr>) \<and>
   node_at [] [''bundle'', ''gemini.js''] = None"
  by (simp add: ensureBundle_single_def ensureBundle_standalone_def run_single_def
      run_standalone_def host_def world_empty_def run_simps)

text \<open>
  Claim C4, amended. \<^verbatim>\<open>ensureBundle\<close> tests once whether the bundle file exists. If it does,
  nothing else happens. If it does not, the bundle command \<^verbatim>\<open>npm run bundle\<close> is spawned exactly
  once and the path is returned without a second existence test, whatever the command left
  behind; a status other than 0 is fatal to the run: the single-file script throws, which
  its top level turns into exit code 1, and the standalone script exits with 1 at once.
  There is never a second attempt.
\<close>

theorem ensureBundle_single_attempt:
  "(node_at (files w) [''bundle'', ''gemini.js''] \<noteq> None \<longrightarrow>
      ensureBundle_single e w =
        (Ok [''bundle'', ''gemini.js''],
         w\<lparr>trace := trace w @ [ExistsSync [''bundle'', ''gemini.js'']]\<rparr>) \<and>
      ensureBundle_standalone e w =
        (Ok [''bundle'', ''gemini.js''],
         w\<lparr>trace := trace w @ [ExistsSync [''bundle'', ''gemini.js'']]\<rparr>)) \<and>
   (node_at (files w) [''bundle'', ''gemini.js''] = None \<longrightarrow>
      ensureBundle_single e w =
        (if status (fst (child e ''npm'' [''run'', ''bundle''] (files w))) = Some 0
         then Ok [''bundle'', ''gemini.js'']
         else Throw (Error ''Command failed: npm run bundle''),
         \<lparr>files = snd (child e ''npm'' [''run'', ''bundle''] (files w)),
          trace = trace w @
            [ExistsSync [''bundle'', ''gemini.js''],
             ConsoleLog ''Bundle not found, building...'',
             ConsoleLog ''> npm run bundle'',
             SpawnSync ''npm'' [''run'', ''bundle'']]\<rparr>) \<and>
      ensureBundle_standalone e w =
        (if status (fst (child e ''npm'' [''run'', ''bundle''] (files w))) = Some 0
         then Ok [''bundle'', ''gemini.js'']
         else Exit 1,
         \<lparr>files = snd (child e ''npm'' [''run'', ''bundle''] (files w)),
          trace = trace w @
            [ExistsSync [''bundle'', ''gemini.js''],
             ConsoleLog ''Bundle not found, building...'',
             ConsoleLog ''> npm run bundle'',
             SpawnSync ''npm'' [''run'', ''bundle'']] @
            (if status (fst (child e ''npm'' [''run'', ''bundle''] (files w))) = Some 0 then []
             else [ConsoleError (''Command failed with status '' @
                     show_status (status (fst (child e ''npm'' [''run'', ''bundle''] (files w)))))])\<rparr>)) \<and>
   (prepare_single e w = (Throw (Error ''Command failed: npm run bundle''), w') \<longrightarrow>
      script_single e args w =
        (Exit 1, w'\<lparr>trace := trace w' @
           [ConsoleErrorObject ''Build failed:'' (Error ''Command failed: npm run bundle'')]\<rparr>)) \<and>
   (ensureBundle_standalone e w = (Exit 1, w') \<longrightarrow>
      script_standalone e args w = (Exit 1, w'))"
  by (simp add: ensureBundle_single_def ensureBundle_standalone_def run_single_def
      run_standalone_def script_single_def main_single_def script_standalone_def
      prepare_standalone_def run_simps)

theorem ensureBundle_single_attempt_witness:
  "node_at (files world_bundled) [''bundle'', ''gemini.js''] \<noteq> None \<and>
   ensureBundle_single host_npm_fails world_bundled =
     (Ok [''bundle'', ''gemini.js''],
      world_bundled\<lparr>trace := [ExistsSync [''bundle'', ''gemini.js'']]\<rparr>) \<and>
   node_at (files world_empty) [''bundle'', ''gemini.js''] = None \<and>
   ensureBundle_single host_npm_fails world_empty =
     (Throw (Error ''Command failed: npm run bundle''),
      \<lparr>files = [],
       trace = [ExistsSync [''bundle'', ''gemini.js''],
                ConsoleLog ''Bundle not found, building...'',
                ConsoleLog ''> npm run bundle'',
                SpawnSync ''npm'' [''run'', ''bundle'']]\<rparr>) \<and>
   script_single host_npm_fails [] world_empty =
     (Exit 1,
      \<lparr>files = [([''dist-single''], Dir)],
       trace = [SpawnSync ''bun'' [''--version''],
                ConsoleLog ''Using Bun 1.2.3'',
                ExistsSync [''dist-single''],
                MkdirSync [''dist-single''],
                ExistsSync [''bundle'', ''gemini.js''],
                ConsoleLog ''Bundle not found, building...'',
                ConsoleLog ''> npm run bundle'',
                SpawnSync ''npm'' [''run'', ''bundle''],
                ConsoleErrorObject ''Build failed:'' (Error ''Command failed: npm run bundle'')]\<rparr>) \<and>
   script_standalone host_npm_fails [] world_empty =
     (Exit 1,
      \<lparr>files = [],
       trace = [ExistsSync [''bundle'', ''gemini.js''],
                ConsoleLog ''Bundle not found, building...'',
                ConsoleLog ''> npm run bundle'',
                SpawnSync ''npm'' [''run'', ''bundle''],
                ConsoleError ''Command failed with status 1'']\<rparr>)"
proof -
  have prep: "prepare_single host_npm_fails world_empty =
     (Throw (Error ''Command failed: npm run bundle''),
      \<lparr>files = [([''dist-single''], Dir)],
       trace = [SpawnSync ''bun'' [''--version''],
                ConsoleLog ''Using Bun 1.2.3'',
                ExistsSync [''dist-single''],
                MkdirSync [''dist-single''],
                ExistsSync [''bundle'', ''gemini.js''],
                ConsoleLog ''Bundle not found, building...'',
                ConsoleLog ''> npm run bundle'',
                SpawnSync ''npm'' [''run'', ''bundle'']]\<rparr>)"
    by (simp add: prepare_single_def clean_dist_single_def ensureBundle_single_def
        run_single_def host_npm_fails_def world_empty_def distDir_single_def trim_def
        js_space_def ancestors_and_self_def add_dir_def run_simps)
  have alone: "ensureBundle_standalone host_npm_fails world_empty =
     (Exit 1,
      \<lparr>files = [],
       trace = [ExistsSync [''bundle'', ''gemini.js''],
                ConsoleLog ''Bundle not found, building...'',
                ConsoleLog ''> npm run bundle'',
                SpawnSync ''npm'' [''run'', ''bundle''],
                ConsoleError ''Command failed with status 1'']\<rparr>)"
    by (simp add: ensureBundle_standalone_def run_standalone_def host_npm_fails_def
        world_empty_def run_simps)
  show ?thesis
    using ensureBundle_single_attempt [where e = host_npm_fails and w = world_bundled]
      ensureBundle_single_attempt [where e = host_npm_fails and w = world_empty
        and args = "[]" and w' = "snd (prepare_single host_npm_fails world_empty)"]
      ensureBundle_single_attempt [where e = host_npm_fails and w = world_empty
        and args = "[]" and w' = "snd (ensureBundle_standalone host_npm_fails world_empty)"]
      prep alone
    by (simp add: host_npm_fails_def world_bundled_def world_empty_def node_at_def)
qed

section \<open>Native addons whose source directory is missing\<close>




section \<open>The clean output root of the single-file script\<close>

text \<open>
  Claim C6, as the spec states it, has every invocation of the single-file script start by
  deleting and recreating the output root. The script first checks the toolchain: when
  \<^verbatim>\<open>bun --version\<close> does not exit with 0 the process exits with 1 before the output root is
  touched, and a file of an earlier run is still there.
\<close>

theorem clean_output_root_counterexample:
  "node_at (files world_stale) [''dist-single'', ''old-build''] = Some (File ''stale'' 493) \<and>
   script_single (host ''linux'' ''x64'' None []) [] world_stale =
     (Exit 1,
      \<lparr>files =
         [([''bundle''], Dir),
          ([''bundle'', ''gemini.js''], File ''//js'' 420),
          ([''dist-single''], Dir),
          ([''dist-single'', ''old-build''], File ''stale'' 493)],
       trace =
         [SpawnSync ''bun'' [''--version''],
          ConsoleError
            ''Bun not found. Install with: curl -fsSL https://bun.sh/install | bash'']\<rparr>)"
  by (simp add: script_single_def main_single_def prepare_single_def host_def
      world_stale_def eval_simps)

text \<open>
  Claim C6, amended. In every invocation of the single-file script that passes the toolchain
  check, the output root is deleted (if it exists) and recreated right after the check,
  before the bundle step and before any platform is built: the rest of the run starts from
  a world in which the output root is a directory with nothing below it and every path
  outside it is as the check left it, so no file of an earlier run survives in the output
  root. An invocation that fails the toolchain check exits with 1 and leaves the output
  root alone. (The file tree is taken to be parent-closed, as every actual one is.)
\<close>

theorem clean_output_root:
  "(status (fst (child e ''bun'' [''--version''] (files w))) = Some 0 \<and>
    parent_closed (snd (child e ''bun'' [''--version''] (files w))) \<longrightarrow>
      (\<exists>wc. empty_dir (files wc) distDir_single \<and>
            (\<forall>q. \<not> prefix distDir_single q \<longrightarrow>
                 node_at (files wc) q =
                 node_at (snd (child e ''bun'' [''--version''] (files w))) q) \<and>
            new_events w wc =
              [SpawnSync ''bun'' [''--version''],
               ConsoleLog (''Using Bun '' @
                 trim (stdout (fst (child e ''bun'' [''--version''] (files w))))),
               ExistsSync distDir_single] @
              (if node_at (snd (child e ''bun'' [''--version''] (files w))) distDir_single
                  \<noteq> None
               then [RmSync distDir_single] else []) @
              [MkdirSync distDir_single] \<and>
            script_single e args w =
              try_catch
                (bind (ensureBundle_single e) (\<lambda>bundlePath.
                   seq (select_single e args bundlePath)
                     (console_log ''\<newline>Done! Single-file executables are in dist-single/'')))
                (\<lambda>err. seq (console_error_object ''Build failed:'' err)
                         (process_exit 1))
                wc)) \<and>
   (status (fst (child e ''bun'' [''--version''] (files w))) \<noteq> Some 0 \<longrightarrow>
      script_single e args w =
        (Exit 1,
         \<lparr>files = snd (child e ''bun'' [''--version''] (files w)),
          trace = trace w @
            [SpawnSync ''bun'' [''--version''],
             ConsoleError
               ''Bun not found. Install with: curl -fsSL https://bun.sh/install | bash'']\<rparr>))"
proof (intro conjI impI)
  assume a: "status (fst (child e ''bun'' [''--version''] (files w))) = Some 0 \<and>
    parent_closed (snd (child e ''bun'' [''--version''] (files w)))"
  define wl where "wl =
    \<lparr>files = snd (child e ''bun'' [''--version''] (files w)),
     trace = trace w @
       [SpawnSync ''bun'' [''--version''],
        ConsoleLog (''Using Bun '' @
          trim (stdout (fst (child e ''bun'' [''--version''] (files w)))))]\<rparr>"
  have "parent_closed (files wl)"
    using a by (simp add: wl_def)
  from clean_dist_single_result [OF this] obtain wc where
    c: "clean_dist_single wl = (Ok (), wc)" "empty_dir (files wc) distDir_single"
       "\<forall>q. \<not> prefix distDir_single q \<longrightarrow> node_at (files wc) q = node_at (files wl) q"
       "trace wc = trace wl @ [ExistsSync distDir_single] @
          (if node_at (files wl) distDir_single \<noteq> None then [RmSync distDir_single] else []) @
          [MkdirSync distDir_single]"
    by blast
  let ?rest = "bind (ensureBundle_single e) (\<lambda>bundlePath.
                   seq (select_single e args bundlePath)
                     (console_log ''\<newline>Done! Single-file executables are in dist-single/''))"
  have "main_single e args w = ?rest wc"
    using a c(1)
    by (simp add: main_single_def prepare_single_def bind_def seq_def spawnSync_apply
        console_log_apply wl_def)
  then have run: "script_single e args w =
      try_catch ?rest
        (\<lambda>err. seq (console_error_object ''Build failed:'' err)
                 (process_exit 1)) wc"
    by (simp add: script_single_def try_catch_def)
  have ev: "new_events w wc =
      [SpawnSync ''bun'' [''--version''],
       ConsoleLog (''Using Bun '' @
         trim (stdout (fst (child e ''bun'' [''--version''] (files w))))),
       ExistsSync distDir_single] @
      (if node_at (snd (child e ''bun'' [''--version''] (files w))) distDir_single \<noteq> None
       then [RmSync distDir_single] else []) @
      [MkdirSync distDir_single]"
    using c(4) by (simp add: new_events_def wl_def)
  from c(2) c(3) ev run show "\<exists>wc. empty_dir (files wc) distDir_single \<and>
            (\<forall>q. \<not> prefix distDir_single q \<longrightarrow>
                 node_at (files wc) q =
                 node_at (snd (child e ''bun'' [''--version''] (files w))) q) \<and>
            new_events w wc =
              [SpawnSync ''bun'' [''--version''],
               ConsoleLog (''Using Bun '' @
                 trim (stdout (fst (child e ''bun'' [''--version''] (files w))))),
               ExistsSync distDir_single] @
              (if node_at (snd (child e ''bun'' [''--version''] (files w))) distDir_single
                  \<noteq> None
               then [RmSync distDir_single] else []) @
              [MkdirSync distDir_single] \<and>
            script_single e args w =
              try_catch ?rest
                (\<lambda>err. seq (console_error_object ''Build failed:'' err)
                         (process_exit 1))
                wc"
    by (intro exI [of _ wc]) (simp add: wl_def)
next
  assume "status (fst (child e ''bun'' [''--version''] (files w))) \<noteq> Some 0"
  then show "script_single e args w =
        (Exit 1,
         \<lparr>files = snd (child e ''bun'' [''--version''] (files w)),
          trace = trace w @
            [SpawnSync ''bun'' [''--version''],
             ConsoleError
               ''Bun not found. Install with: curl -fsSL https://bun.sh/install | bash'']\<rparr>)"
    by (simp add: script_single_def main_single_def prepare_single_def try_catch_def
        bind_def seq_def spawnSync_apply console_error_apply process_exit_def)
qed

theorem clean_output_root_witness:
  "status (fst (child (host ''linux'' ''x64'' (Some 0) ''1.2.3'') ''bun'' [''--version'']
     (files world_stale))) = Some 0 \<and>
   parent_closed (snd (child (host ''linux'' ''x64'' (Some 0) ''1.2.3'') ''bun''
     [''--version''] (files world_stale))) \<and>
   node_at (files world_stale) [''dist-single'', ''old-build''] \<noteq> None \<and>
   (\<exists>wc. empty_dir (files wc) distDir_single \<and>
         new_events world_stale wc =
           [SpawnSync ''bun'' [''--version''], ConsoleLog ''Using Bun 1.2.3'',
            ExistsSync distDir_single, RmSync distDir_single, MkdirSync distDir_single] \<and>
         script_single (host ''linux'' ''x64'' (Some 0) ''1.2.3'') [] world_stale =
           try_catch
             (bind (ensureBundle_single (host ''linux'' ''x64'' (Some 0) ''1.2.3''))
                (\<lambda>bundlePath.
                   seq (select_single (host ''linux'' ''x64'' (Some 0) ''1.2.3'') [] bundlePath)
                     (console_log ''\<newline>Done! Single-file executables are in dist-single/'')))
             (\<lambda>err. seq (console_error_object ''Build failed:'' err)
                      (process_exit 1))
             wc) \<and>
   status (fst (child (host ''linux'' ''x64'' None []) ''bun'' [''--version'']
     (files world_stale))) \<noteq> Some 0 \<and>
   fst (script_single (host ''linux'' ''x64'' None []) [] world_stale) = Exit 1"
proof -
  let ?e = "host ''linux'' ''x64'' (Some 0) ''1.2.3''"
  have h1: "status (fst (child ?e ''bun'' [''--version''] (files world_stale))) = Some 0"
    by (simp add: host_def)
  have h2: "parent_closed (snd (child ?e ''bun'' [''--version''] (files world_stale)))"
    by (simp add: host_def world_stale_def parent_closed_def node_at_def)
  have h3: "node_at (files world_stale) [''dist-single'', ''old-build''] \<noteq> None"
    by (simp add: world_stale_def node_at_def)
  have h4: "status (fst (child (host ''linux'' ''x64'' None []) ''bun'' [''--version'']
      (files world_stale))) \<noteq> Some 0"
    by (simp add: host_def)
  have tr: "trim (stdout (fst (child ?e ''bun'' [''--version''] (files world_stale)))) = ''1.2.3''"
    by (simp add: host_def trim_def js_space_def)
  have ex: "node_at (snd (child ?e ''bun'' [''--version''] (files world_stale))) distDir_single
      \<noteq> None"
    by (simp add: host_def world_stale_def node_at_def distDir_single_eq)
  from clean_output_root [where e = ?e and w = world_stale and args = "[]"] h1 h2
  obtain wc where "empty_dir (files wc) distDir_single"
    "new_events world_stale wc =
       [SpawnSync ''bun'' [''--version''],
        ConsoleLog (''Using Bun '' @
          trim (stdout (fst (child ?e ''bun'' [''--version''] (files world_stale))))),
        ExistsSync distDir_single] @
       (if node_at (snd (child ?e ''bun'' [''--version''] (files world_stale))) distDir_single
           \<noteq> None
        then [RmSync distDir_single] else []) @
       [MkdirSync distDir_single]"
    "script_single ?e [] world_stale =
       try_catch
         (bind (ensureBundle_single ?e) (\<lambda>bundlePath.
            seq (select_single ?e [] bundlePath)
              (console_log ''\<newline>Done! Single-file executables are in dist-single/'')))
         (\<lambda>err. seq (console_error_object ''Build failed:'' err)
                  (process_exit 1))
         wc"
    by blast
  then have first: "\<exists>wc. empty_dir (files wc) distDir_single \<and>
         new_events world_stale wc =
           [SpawnSync ''bun'' [''--version''], ConsoleLog ''Using Bun 1.2.3'',
            ExistsSync distDir_single, RmSync distDir_single, MkdirSync distDir_single] \<and>
         script_single ?e [] world_stale =
           try_catch
             (bind (ensureBundle_single ?e) (\<lambda>bundlePath.
                seq (select_single ?e [] bundlePath)
                  (console_log ''\<newline>Done! Single-file executables are in dist-single/'')))
             (\<lambda>err. seq (console_error_object ''Build failed:'' err)
                      (process_exit 1))
             wc"
    using tr ex by (intro exI [of _ wc]) simp
  from clean_output_root [where e = "host ''linux'' ''x64'' None []" and w = world_stale
      and args = "[]"] h4
  have second: "fst (script_single (host ''linux'' ''x64'' None []) [] world_stale) = Exit 1"
    by simp
  from h1 h2 h3 h4 first second show ?thesis
    by blast
qed

section \<open>Launcher scripts\<close>

text \<open>
  Claim C7. Generating the launchers of the standalone package is deterministic and
  idempotent. After a successful \<^verbatim>\<open>createLauncher\<close> both launchers hold the shell script (not
  Windows) or the batch script (Windows), two constants of the program; generating them again
  succeeds and leaves every file as it is, byte for byte. \<^verbatim>\<open>buildPackage\<close> passes
  \<^verbatim>\<open>platformKey.startsWith('win')\<close> for \<open>isWindows\<close>, so the platform key matters through
  this distinction only.
\<close>

theorem createLauncher_idempotent:
  assumes "createLauncher platformDir isWindows w = (Ok (), w1)"
  shows "(\<exists>w2. createLauncher platformDir isWindows w1 = (Ok (), w2) \<and> files w2 = files w1) \<and>
         (\<exists>m. node_at (files w1) (join platformDir (if isWindows then ''gsharp.cmd'' else ''gsharp''))
                 = Some (File (if isWindows then batContent else shContent) m)) \<and>
         (\<exists>m. node_at (files w1)
                 (join platformDir (if isWindows then ''gemini-sharp.cmd'' else ''gemini-sharp''))
                 = Some (File (if isWindows then batContent else shContent) m))"
proof (cases isWindows)
  case True
  with assms have "seq (writeFileSync (platformDir @ [''gsharp.cmd'']) batContent default_mode)
      (writeFileSync (platformDir @ [''gemini-sharp.cmd'']) batContent default_mode) w = (Ok (), w1)"
    by (simp add: createLauncher_def join_def segments_simps)
  then obtain y w0 where
    "writeFileSync (platformDir @ [''gsharp.cmd'']) batContent default_mode w = (Ok y, w0)"
    "writeFileSync (platformDir @ [''gemini-sharp.cmd'']) batContent default_mode w0 = (Ok (), w1)"
    unfolding seq_Ok_iff by blast
  from write_two_files_twice [OF this(1)[simplified] this(2)] True show ?thesis
    by (simp add: createLauncher_def join_def segments_simps)
next
  case False
  with assms have "seq (writeFileSync (platformDir @ [''gsharp'']) shContent 493)
      (writeFileSync (platformDir @ [''gemini-sharp'']) shContent 493) w = (Ok (), w1)"
    by (simp add: createLauncher_def join_def segments_simps Let_def)
  then obtain y w0 where
    "writeFileSync (platformDir @ [''gsharp'']) shContent 493 w = (Ok y, w0)"
    "writeFileSync (platformDir @ [''gemini-sharp'']) shContent 493 w0 = (Ok (), w1)"
    unfolding seq_Ok_iff by blast
  from write_two_files_twice [OF this(1)[simplified] this(2)] False show ?thesis
    by (simp add: createLauncher_def join_def segments_simps Let_def)
qed

theorem createLauncher_idempotent_witness:
  "createLauncher [''dist-standalone'', ''gsharp-linux-x64''] (startsWith ''linux-x64'' ''win'')
     world_packages =
     (Ok (), snd (createLauncher [''dist-standalone'', ''gsharp-linux-x64''] False
                    world_packages)) \<and>
   files (snd (createLauncher [''dist-standalone'', ''gsharp-linux-x64''] False
     (snd (createLauncher [''dist-standalone'', ''gsharp-linux-x64''] False world_packages))))
   = files (snd (createLauncher [''dist-standalone'', ''gsharp-linux-x64''] False
                   world_packages)) \<and>
   createLauncher [''dist-standalone'', ''gsharp-win-x64''] (startsWith ''win-x64'' ''win'')
     world_packages =
     (Ok (), snd (createLauncher [''dist-standalone'', ''gsharp-win-x64''] True
                    world_packages)) \<and>
   files (snd (createLauncher [''dist-standalone'', ''gsharp-win-x64''] True
     (snd (createLauncher [''dist-standalone'', ''gsharp-win-x64''] True world_packages))))
   = files (snd (createLauncher [''dist-standalone'', ''gsharp-win-x64''] True
                   world_packages))"
proof -
  have lin: "createLauncher [''dist-standalone'', ''gsharp-linux-x64''] False world_packages =
     (Ok (), snd (createLauncher [''dist-standalone'', ''gsharp-linux-x64''] False
                    world_packages))"
    by (simp add: createLauncher_def world_packages_def write_check_def run_simps)
  have win: "createLauncher [''dist-standalone'', ''gsharp-win-x64''] True world_packages =
     (Ok (), snd (createLauncher [''dist-standalone'', ''gsharp-win-x64''] True
                    world_packages))"
    by (simp add: createLauncher_def world_packages_def write_check_def run_simps)
  have keys: "startsWith ''linux-x64'' ''win'' = False" "startsWith ''win-x64'' ''win'' = True"
    by (simp_all add: startsWith_def)
  from createLauncher_idempotent [OF lin] obtain w2 where
    "createLauncher [''dist-standalone'', ''gsharp-linux-x64''] False
       (snd (createLauncher [''dist-standalone'', ''gsharp-linux-x64''] False world_packages))
     = (Ok (), w2)"
    "files w2 = files (snd (createLauncher [''dist-standalone'', ''gsharp-linux-x64''] False
                              world_packages))"
    by blast
  then have again_lin:
    "files (snd (createLauncher [''dist-standalone'', ''gsharp-linux-x64''] False
       (snd (createLauncher [''dist-standalone'', ''gsharp-linux-x64''] False world_packages))))
     = files (snd (createLauncher [''dist-standalone'', ''gsharp-linux-x64''] False
                     world_packages))"
    by simp
  from createLauncher_idempotent [OF win] obtain w3 where
    "createLauncher [''dist-standalone'', ''gsharp-win-x64''] True
       (snd (createLauncher [''dist-standalone'', ''gsharp-win-x64''] True world_packages))
     = (Ok (), w3)"
    "files w3 = files (snd (createLauncher [''dist-standalone'', ''gsharp-win-x64''] True
                              world_packages))"
    by blast
  then have again_win:
    "files (snd (createLauncher [''dist-standalone'', ''gsharp-win-x64''] True
       (snd (createLauncher [''dist-standalone'', ''gsharp-win-x64''] True world_packages))))
     = files (snd (createLauncher [''dist-standalone'', ''gsharp-win-x64''] True
                     world_packages))"
    by simp
  show ?thesis
    unfolding keys using lin again_lin win again_win by blast
qed

section \<open>Precedence of \<open>--all\<close>\<close>

text \<open>
  Claim C8, as the spec states it, has every platform of the table built, and no exit code
  1, for every argument list that contains \<^verbatim>\<open>--all\<close>. The extra key is indeed never looked
  up, but a build can fail. With the arguments \<^verbatim>\<open>--all bogus\<close>, in a repository where a plain
  file sits in the place of the \<open>linux-arm64\<close> package directory, the standalone script
  ends with exit code 1 at the second table entry: the package directories of the three
  entries after it are never asked for and do not exist when the run ends. On a host whose
  compiler fails for \<open>linux-x64\<close> the single-file script returns normally and reports that
  this platform was not built.
\<close>

theorem all_flag_not_built_counterexample:
  "''--all'' \<in> set [''--all'', ''bogus''] \<and>
   exit_code (fst (script_standalone (host ''linux'' ''x64'' (Some 0) [])
                     [''--all'', ''bogus''] world_blocked)) = 1 \<and>
   mkdir_calls (trace (snd (script_standalone (host ''linux'' ''x64'' (Some 0) [])
                              [''--all'', ''bogus''] world_blocked))) =
     [[''dist-standalone''],
      [''dist-standalone'', ''gsharp-linux-x64'', ''bundle''],
      [''dist-standalone'', ''gsharp-linux-arm64'', ''bundle'']] \<and>
   node_at (files (snd (script_standalone (host ''linux'' ''x64'' (Some 0) [])
                          [''--all'', ''bogus''] world_blocked)))
     [''dist-standalone'', ''gsharp-mac-x64''] = None \<and>
   fst (script_single host_build_fails [''--all'', ''bogus''] world_bundled) = Ok () \<and>
   ConsoleError ''Failed to build for linux-x64: Command failed: bun build /repo/bundle/gemini.js --compile --target bun-linux-x64 --outfile /repo/dist-single/linux-x64/gsharp --minify''
     \<in> set (trace (snd (script_single host_build_fails [''--all'', ''bogus''] world_bundled)))"
proof -
  have alone: "exit_code (fst (script_standalone (host ''linux'' ''x64'' (Some 0) [])
                     [''--all'', ''bogus''] world_blocked)) = 1 \<and>
   mkdir_calls (trace (snd (script_standalone (host ''linux'' ''x64'' (Some 0) [])
                              [''--all'', ''bogus''] world_blocked))) =
     [[''dist-standalone''],
      [''dist-standalone'', ''gsharp-linux-x64'', ''bundle''],
      [''dist-standalone'', ''gsharp-linux-arm64'', ''bundle'']] \<and>
   node_at (files (snd (script_standalone (host ''linux'' ''x64'' (Some 0) [])
                          [''--all'', ''bogus''] world_blocked)))
     [''dist-standalone'', ''gsharp-mac-x64''] = None"
    by (simp add: script_standalone_def select_standalone_def buildPackage_def
        copyNativeAddons_standalone_def createLauncher_def prepare_standalone_def
        ensureBundle_standalone_def host_def world_blocked_def eval_simps)
  have single: "fst (script_single host_build_fails [''--all'', ''bogus''] world_bundled) = Ok () \<and>
   ConsoleError ''Failed to build for linux-x64: Command failed: bun build /repo/bundle/gemini.js --compile --target bun-linux-x64 --outfile /repo/dist-single/linux-x64/gsharp --minify''
     \<in> set (trace (snd (script_single host_build_fails [''--all'', ''bogus''] world_bundled)))"
    by (simp add: script_single_def main_single_def select_single_def
        buildForPlatform_single_def copyNativeAddons_single_def prepare_single_def
        clean_dist_single_def ensureBundle_single_def run_single_def host_build_fails_def
        world_bundled_def eval_simps)
  from alone single show ?thesis
    by simp
qed

text \<open>
  Claim C8, amended. In both scripts \<^verbatim>\<open>--all\<close> takes precedence over a platform-key argument:
  a run whose arguments contain \<^verbatim>\<open>--all\<close> is the run with \<^verbatim>\<open>--all\<close> alone, so a further key is
  never looked up and the selection stage prints no unknown-platform error. The platforms of
  the table are attempted in table order, an attempt starting with the request for the
  directory of the platform. In the single-file script, once the preparation has succeeded,
  every platform of the table is attempted and the run returns normally (exit code 0),
  whether or not the builds succeed. In the standalone script, once the preparation has
  succeeded, the platforms attempted are an initial part of the table: all of it when the
  run returns normally, and otherwise the run ends with exit code 1 at a failing package.
  So exit code 1 never comes from the extra key, only from the preparation or from a
  failing package of the standalone script.
\<close>

theorem all_flag_attempts:
  assumes "''--all'' \<in> set args"
  shows "script_single e args w = script_single e [''--all''] w \<and>
         script_standalone e args w = script_standalone e [''--all''] w \<and>
         \<not> list_ex is_unknown_platform (new_events w1 (snd (select_single e args b w1))) \<and>
         \<not> list_ex is_unknown_platform (new_events w1 (snd (select_standalone e args w1))) \<and>
         (prepare_single e w = (Ok b, w1) \<longrightarrow>
            fst (script_single e args w) = Ok () \<and>
            mkdir_calls (new_events w1 (snd (script_single e args w))) =
              map (join distDir_single) (object_keys targets)) \<and>
         (prepare_standalone e w = (Ok (), w1) \<longrightarrow>
            (\<exists>n. n \<le> length (object_keys platforms) \<and>
                 mkdir_calls (new_events w1 (snd (script_standalone e args w))) =
                   map (\<lambda>k. join (join distDir_standalone (''gsharp-'' @ k)) ''bundle'')
                     (take n (object_keys platforms)) \<and>
                 (fst (script_standalone e args w) = Ok () \<longrightarrow>
                    n = length (object_keys platforms)) \<and>
                 (fst (script_standalone e args w) \<noteq> Ok () \<longrightarrow>
                    exit_code (fst (script_standalone e args w)) = 1)))"
proof -
  let ?g = "\<lambda>k. join (join distDir_standalone (''gsharp-'' @ k)) ''bundle''"
  have sel1: "select_single e args = select_single e [''--all'']"
    using assms by (intro ext) (simp add: select_single_def)
  have sel2: "select_standalone e args = select_standalone e [''--all'']"
    using assms by (intro ext) (simp add: select_standalone_def)
  have eq1: "script_single e args w = script_single e [''--all''] w"
    by (simp add: script_single_def main_single_def sel1)
  have eq2: "script_standalone e args w = script_standalone e [''--all''] w"
    by (simp add: script_standalone_def sel2)
  from select_single_all [OF assms, of e b w1] obtain ws evs where
    s: "select_single e args b w1 = (Ok (), ws)" "trace ws = trace w1 @ evs"
       "mkdir_calls evs = map (join distDir_single) (object_keys targets)"
       "\<not> list_ex is_unknown_platform evs"
    by blast
  have known1: "\<not> list_ex is_unknown_platform (new_events w1 (snd (select_single e args b w1)))"
    using s by (simp add: new_events_def)
  from select_standalone_all [OF assms, of e w1] obtain r wp evp n where
    p: "select_standalone e args w1 = (r, wp)" "trace wp = trace w1 @ evp"
       "mkdir_calls evp = map ?g (take n (object_keys platforms))"
       "\<not> list_ex is_unknown_platform evp" "r = Ok () \<longrightarrow> n = length (object_keys platforms)"
       "n \<le> length (object_keys platforms)" "\<forall>c. r \<noteq> Exit c"
    by blast
  have known2: "\<not> list_ex is_unknown_platform (new_events w1 (snd (select_standalone e args w1)))"
    using p by (simp add: new_events_def)
  have single: "fst (script_single e args w) = Ok () \<and>
      mkdir_calls (new_events w1 (snd (script_single e args w))) =
        map (join distDir_single) (object_keys targets)"
    if "prepare_single e w = (Ok b, w1)"
  proof -
    have "script_single e args w =
        (Ok (), ws\<lparr>trace := trace ws @
           [ConsoleLog ''\<newline>Done! Single-file executables are in dist-single/'']\<rparr>)"
      using that s(1)
      by (simp add: script_single_def main_single_def try_catch_def bind_def seq_def
          console_log_apply)
    then show ?thesis
      using s(2,3) by (simp add: new_events_def mkdir_calls_append)
  qed
  have alone: "\<exists>n. n \<le> length (object_keys platforms) \<and>
      mkdir_calls (new_events w1 (snd (script_standalone e args w))) =
        map ?g (take n (object_keys platforms)) \<and>
      (fst (script_standalone e args w) = Ok () \<longrightarrow> n = length (object_keys platforms)) \<and>
      (fst (script_standalone e args w) \<noteq> Ok () \<longrightarrow>
         exit_code (fst (script_standalone e args w)) = 1)"
    if prep: "prepare_standalone e w = (Ok (), w1)"
  proof (cases r)
    case (Ok u)
    then have "script_standalone e args w =
        (Ok (), wp\<lparr>trace := trace wp @
           [ConsoleLog ''\<newline>Done! Packages are in dist-standalone/'',
            ConsoleLog ''Note: Users need Node.js 20+ installed to run these packages.'']\<rparr>)"
      using prep p(1)
      by (simp add: script_standalone_def bind_def seq_def console_log_apply)
    then have "mkdir_calls (new_events w1 (snd (script_standalone e args w))) =
        map ?g (take n (object_keys platforms))"
      "fst (script_standalone e args w) = Ok ()"
      using p(2,3) by (simp_all add: new_events_def mkdir_calls_append)
    with p(5,6) Ok show ?thesis
      by (intro exI [of _ n]) simp
  next
    case (Throw err)
    then have "script_standalone e args w = (Throw err, wp)"
      using prep p(1) by (simp add: script_standalone_def bind_def seq_def)
    then have "mkdir_calls (new_events w1 (snd (script_standalone e args w))) =
        map ?g (take n (object_keys platforms))"
      "fst (script_standalone e args w) = Throw err"
      using p(2,3) by (simp_all add: new_events_def)
    with p(6) show ?thesis
      by (intro exI [of _ n]) simp
  next
    case (Exit c)
    with p(7) show ?thesis by simp
  qed
  from eq1 eq2 known1 known2 single alone show ?thesis
    by blast
qed

theorem all_flag_attempts_witness:
  "''--all'' \<in> set [''--all'', ''bogus''] \<and>
   js_get targets ''bogus'' = Undefined \<and>
   script_single host_build_fails [''--all'', ''bogus''] world_bundled =
   script_single host_build_fails [''--all''] world_bundled \<and>
   fst (prepare_single host_build_fails world_bundled) = Ok [''bundle'', ''gemini.js''] \<and>
   fst (script_single host_build_fails [''--all'', ''bogus''] world_bundled) = Ok () \<and>
   mkdir_calls
     (new_events (snd (prepare_single host_build_fails world_bundled))
        (snd (script_single host_build_fails [''--all'', ''bogus''] world_bundled))) =
     [[''dist-single'', ''linux-x64''], [''dist-single'', ''linux-arm64''],
      [''dist-single'', ''mac-x64''], [''dist-single'', ''mac-arm64''],
      [''dist-single'', ''win-x64'']] \<and>
   fst (prepare_standalone (host ''linux'' ''x64'' (Some 0) ''1.2.3'') world_bundled) = Ok () \<and>
   fst (script_standalone (host ''linux'' ''x64'' (Some 0) ''1.2.3'') [''--all'', ''bogus'']
          world_bundled) = Ok () \<and>
   mkdir_calls
     (new_events
        (snd (prepare_standalone (host ''linux'' ''x64'' (Some 0) ''1.2.3'') world_bundled))
        (snd (script_standalone (host ''linux'' ''x64'' (Some 0) ''1.2.3'')
                [''--all'', ''bogus''] world_bundled))) =
     [[''dist-standalone'', ''gsharp-linux-x64'', ''bundle''],
      [''dist-standalone'', ''gsharp-linux-arm64'', ''bundle''],
      [''dist-standalone'', ''gsharp-mac-x64'', ''bundle''],
      [''dist-standalone'', ''gsharp-mac-arm64'', ''bundle''],
      [''dist-standalone'', ''gsharp-win-x64'', ''bundle'']] \<and>
   fst (prepare_standalone (host ''linux'' ''x64'' (Some 0) ''1.2.3'') world_blocked) = Ok () \<and>
   fst (script_standalone (host ''linux'' ''x64'' (Some 0) ''1.2.3'') [''--all'', ''bogus'']
          world_blocked) \<noteq> Ok () \<and>
   exit_code (fst (script_standalone (host ''linux'' ''x64'' (Some 0) ''1.2.3'')
                     [''--all'', ''bogus''] world_blocked)) = 1"
proof -
  let ?e = "host ''linux'' ''x64'' (Some 0) ''1.2.3''"
  let ?f = host_build_fails
  let ?args = "[''--all'', ''bogus'']"
  let ?g = "\<lambda>k. join (join distDir_standalone (''gsharp-'' @ k)) ''bundle''"
  have all: "''--all'' \<in> set ?args"
    by simp
  have bogus: "js_get targets ''bogus'' = Undefined"
    by (simp add: js_get_def targets_def object_prototype_keys_def)
  have p1: "prepare_single ?f world_bundled =
      (Ok [''bundle'', ''gemini.js''], snd (prepare_single ?f world_bundled))"
    by (simp add: prepare_single_def clean_dist_single_def ensureBundle_single_def
        run_single_def host_build_fails_def world_bundled_def eval_simps)
  have p2: "prepare_standalone ?e world_bundled =
      (Ok (), snd (prepare_standalone ?e world_bundled))"
    by (simp add: prepare_standalone_def ensureBundle_standalone_def host_def
        world_bundled_def eval_simps)
  have p3: "prepare_standalone ?e world_blocked =
      (Ok (), snd (prepare_standalone ?e world_blocked))"
    by (simp add: prepare_standalone_def ensureBundle_standalone_def host_def
        world_blocked_def eval_simps)
  have ok2: "fst (script_standalone ?e [''--all''] world_bundled) = Ok ()"
    by (simp add: script_standalone_def select_standalone_def buildPackage_def
        copyNativeAddons_standalone_def createLauncher_def prepare_standalone_def
        ensureBundle_standalone_def host_def world_bundled_def eval_simps)
  have bad: "fst (script_standalone ?e [''--all''] world_blocked) \<noteq> Ok ()"
    by (simp add: script_standalone_def select_standalone_def buildPackage_def
        copyNativeAddons_standalone_def createLauncher_def prepare_standalone_def
        ensureBundle_standalone_def host_def world_blocked_def eval_simps)
  note single = all_flag_attempts [OF all, where e = ?f and w = world_bundled
      and b = "[''bundle'', ''gemini.js'']" and ?w1.0 = "snd (prepare_single ?f world_bundled)"]
  note alone = all_flag_attempts [OF all, where e = ?e and w = world_bundled
      and ?w1.0 = "snd (prepare_standalone ?e world_bundled)"]
  note blocked = all_flag_attempts [OF all, where e = ?e and w = world_blocked
      and ?w1.0 = "snd (prepare_standalone ?e world_blocked)"]
  have eq1: "script_single ?f ?args world_bundled = script_single ?f [''--all''] world_bundled"
    using single by blast
  have eq2: "script_standalone ?e ?args world_bundled =
      script_standalone ?e [''--all''] world_bundled"
    using alone by blast
  have eq3: "script_standalone ?e ?args world_blocked =
      script_standalone ?e [''--all''] world_blocked"
    using blocked by blast
  have r1: "fst (script_single ?f ?args world_bundled) = Ok ()"
    "mkdir_calls (new_events (snd (prepare_single ?f world_bundled))
        (snd (script_single ?f ?args world_bundled))) =
     map (join distDir_single) (object_keys targets)"
    using single p1 by blast+
  have ok2': "fst (script_standalone ?e ?args world_bundled) = Ok ()"
    using ok2 eq2 by simp
  have bad': "fst (script_standalone ?e ?args world_blocked) \<noteq> Ok ()"
    using bad eq3 by simp
  from alone p2 obtain n where
    "mkdir_calls (new_events (snd (prepare_standalone ?e world_bundled))
        (snd (script_standalone ?e ?args world_bundled))) =
     map ?g (take n (object_keys platforms))"
    "fst (script_standalone ?e ?args world_bundled) = Ok () \<longrightarrow>
       n = length (object_keys platforms)"
    by blast
  with ok2' have r2: "mkdir_calls (new_events (snd (prepare_standalone ?e world_bundled))
        (snd (script_standalone ?e ?args world_bundled))) =
     map ?g (object_keys platforms)"
    by simp
  from blocked p3 bad' have r3: "exit_code (fst (script_standalone ?e ?args world_blocked)) = 1"
    by blast
  have m1: "map (join distDir_single) (object_keys targets) =
     [[''dist-single'', ''linux-x64''], [''dist-single'', ''linux-arm64''],
      [''dist-single'', ''mac-x64''], [''dist-single'', ''mac-arm64''],
      [''dist-single'', ''win-x64'']]"
    by (simp add: object_keys_def targets_def join_def segments_def distDir_single_def
        rootDir_def)
  have m2: "map ?g (object_keys platforms) =
     [[''dist-standalone'', ''gsharp-linux-x64'', ''bundle''],
      [''dist-standalone'', ''gsharp-linux-arm64'', ''bundle''],
      [''dist-standalone'', ''gsharp-mac-x64'', ''bundle''],
      [''dist-standalone'', ''gsharp-mac-arm64'', ''bundle''],
      [''dist-standalone'', ''gsharp-win-x64'', ''bundle'']]"
    by (simp add: object_keys_def platforms_def join_def segments_def distDir_standalone_def
        rootDir_def)
  have f1: "fst (prepare_single ?f world_bundled) = Ok [''bundle'', ''gemini.js'']"
    using p1 by (metis fst_conv)
  have f2: "fst (prepare_standalone ?e world_bundled) = Ok ()"
    using p2 by (metis fst_conv)
  have f3: "fst (prepare_standalone ?e world_blocked) = Ok ()"
    using p3 by (metis fst_conv)
  show ?thesis
    using all bogus eq1 f1 r1 f2 ok2' r2 f3 bad' r3 unfolding m1 m2 by blast
qed

section \<open>What the standalone script removes\<close>

text \<open>
  Claim C9, as the spec states it, has every file that is in the output tree before a run of
  the standalone script, and is not overwritten by the run, still exist afterwards. The
  script has no clean-slate step, but \<^verbatim>\<open>copyFileSync\<close> removes its destination when the copy
  fails after the destination was opened. In a repository whose \<^verbatim>\<open>node-pty\<close> package holds
  a directory named \<^verbatim>\<open>pty.node\<close>, the copy of that entry fails; \<^verbatim>\<open>copyNativeAddons\<close> catches
  the error and prints its warning, the run ends normally, and the addon \<^verbatim>\<open>bundle/pty.node\<close>
  that an earlier run left in the package is gone without having been overwritten.
\<close>

theorem standalone_removes_copy_target_counterexample:
  "node_at (files world_addon_dir)
     [''dist-standalone'', ''gsharp-linux-x64'', ''bundle'', ''pty.node'']
     = Some (File ''old addon'' 420) \<and>
   fst (script_standalone (host ''linux'' ''x64'' (Some 0) []) [''linux-x64'']
          world_addon_dir) = Ok () \<and>
   node_at (files (snd (script_standalone (host ''linux'' ''x64'' (Some 0) []) [''linux-x64'']
                          world_addon_dir)))
     [''dist-standalone'', ''gsharp-linux-x64'', ''bundle'', ''pty.node''] = None \<and>
   ConsoleWarn ''  Warning: Could not copy native addons for linux-x64''
     \<in> set (trace (snd (script_standalone (host ''linux'' ''x64'' (Some 0) []) [''linux-x64'']
                          world_addon_dir)))"
  by (simp add: script_standalone_def select_standalone_def buildPackage_def
      copyNativeAddons_standalone_def createLauncher_def prepare_standalone_def
      ensureBundle_standalone_def host_def world_addon_dir_def eval_simps)

text \<open>
  Claim C9, amended. The standalone script has no clean-slate step: no run calls \<^verbatim>\<open>rmSync\<close>,
  and after the bundle command (the one child process, which is not the script's own code)
  every call of the script keeps what is there, but for the destination of a copy. A node
  that exists after \<^verbatim>\<open>ensureBundle\<close> is treated as follows, whatever the arguments and however
  the run ends. A directory is still a directory. A file is still a file with the same
  content and mode unless the run copied or wrote to its path; in that case it is still a
  file, or its path was the destination of a copy of the run. So a path that is gone at
  the end was the destination of a copy, which lies at or below the \<^verbatim>\<open>bundle\<close> directory of
  a package: the output root, the package directories and every file outside the \<^verbatim>\<open>bundle\<close>
  directories stay. When the bundle file exists at the start no child is spawned, and all
  this holds from the start.
\<close>

theorem standalone_keeps:
  assumes "ensureBundle_standalone e w = (rb, w1)"
    and "script_standalone e args w = (r, w')"
    and "node_at (files w1) p = Some n"
  shows "(node_at (files w') p = Some n \<or>
          (is_file (Some n) \<and> p \<in> set (write_targets (new_events w1 w')) \<and>
           (is_file (node_at (files w') p) \<or> p \<in> set (copy_targets (new_events w1 w'))))) \<and>
         (node_at (files w') p = None \<longrightarrow>
            (\<exists>k. prefix (join (join distDir_standalone (''gsharp-'' @ k)) ''bundle'') p)) \<and>
         list_all not_rm (new_events w w') \<and>
         (node_at (files w) (join bundleDir ''gemini.js'') \<noteq> None \<longrightarrow> files w1 = files w)"
proof -
  let ?rest = "seq (mkdirSync distDir_standalone)
      (seq (select_standalone e args)
         (seq (console_log ''\<newline>Done! Packages are in dist-standalone/'')
            (console_log ''Note: Users need Node.js 20+ installed to run these packages.'')))"
  have run: "script_standalone e args = seq (ensureBundle_standalone e) ?rest"
    by (simp add: script_standalone_def prepare_standalone_def seq_assoc)
  have quiet1: "emits not_rm w w1"
    using not_rm_ensureBundle_standalone assms(1) by (rule preservesD)
  have "keeps w1 w' \<and> emits into_bundle w1 w' \<and> emits not_rm w1 w'"
  proof (cases rb)
    case (Ok x)
    with assms(1,2) have "?rest w1 = (r, w')"
      by (simp add: run seq_def bind_def)
    with keeps_after_bundle calls_after_bundle show ?thesis
      by (blast intro: preservesD)
  next
    case (Throw err)
    with assms(1,2) have "w' = w1"
      by (simp add: run seq_def bind_def)
    then show ?thesis
      using keeps_refl emits_refl by (simp add: reflp_def)
  next
    case (Exit c)
    with assms(1,2) have "w' = w1"
      by (simp add: run seq_def bind_def)
    then show ?thesis
      using keeps_refl emits_refl by (simp add: reflp_def)
  qed
  then have k: "keeps w1 w'" and c: "emits into_bundle w1 w'" and q: "emits not_rm w1 w'"
    by simp_all
  from k assms(3) have first: "node_at (files w') p = Some n \<or>
      (is_file (Some n) \<and> p \<in> set (write_targets (new_events w1 w')) \<and>
       (is_file (node_at (files w') p) \<or> p \<in> set (copy_targets (new_events w1 w'))))"
    unfolding keeps_def by blast
  have second: "\<exists>k. prefix (join (join distDir_standalone (''gsharp-'' @ k)) ''bundle'') p"
    if "node_at (files w') p = None"
  proof -
    from first that have "p \<in> set (copy_targets (new_events w1 w'))"
      by auto
    with c show ?thesis
      unfolding emits_def by (blast intro: into_bundle_target)
  qed
  from quiet1 q have "new_events w w' = new_events w w1 @ new_events w1 w'"
    unfolding emits_def by (blast intro: new_events_trans)
  with quiet1 q have third: "list_all not_rm (new_events w w')"
    by (simp add: emits_def)
  have "files w1 = files w" if "node_at (files w) (join bundleDir ''gemini.js'') \<noteq> None"
    using that assms(1)
    by (auto simp: ensureBundle_standalone_def Let_def seq_def bind_def existsSync_apply
        ret_def)
  with first second third show ?thesis
    by blast
qed

theorem standalone_keeps_witness:
  "ensureBundle_standalone (host ''linux'' ''x64'' (Some 0) []) world_old_package =
     (Ok [''bundle'', ''gemini.js''],
      world_old_package\<lparr>trace := [ExistsSync [''bundle'', ''gemini.js'']]\<rparr>) \<and>
   fst (script_standalone (host ''linux'' ''x64'' (Some 0) []) [''linux-x64'']
          world_old_package) = Ok () \<and>
   node_at (files world_old_package) [''dist-standalone'', ''gsharp-linux-x64'', ''notes.txt'']
     = Some (File ''keep'' 420) \<and>
   node_at (files (snd (script_standalone (host ''linux'' ''x64'' (Some 0) []) [''linux-x64'']
                          world_old_package)))
     [''dist-standalone'', ''gsharp-linux-x64'', ''notes.txt''] = Some (File ''keep'' 420) \<and>
   node_at (files world_old_package) [''dist-standalone'', ''gsharp-linux-x64'', ''gsharp'']
     = Some (File ''old launcher'' 493) \<and>
   node_at (files (snd (script_standalone (host ''linux'' ''x64'' (Some 0) []) [''linux-x64'']
                          world_old_package)))
     [''dist-standalone'', ''gsharp-linux-x64'', ''gsharp''] = Some (File shContent 493)"
proof -
  let ?e = "host ''linux'' ''x64'' (Some 0) []"
  let ?w1 = "world_old_package\<lparr>trace := [ExistsSync [''bundle'', ''gemini.js'']]\<rparr>"
  let ?w' = "snd (script_standalone ?e [''linux-x64''] world_old_package)"
  have b: "ensureBundle_standalone ?e world_old_package = (Ok [''bundle'', ''gemini.js''], ?w1)"
    by (simp add: ensureBundle_standalone_def world_old_package_def eval_simps)
  have ok: "fst (script_standalone ?e [''linux-x64''] world_old_package) = Ok ()"
    by (simp add: script_standalone_def select_standalone_def buildPackage_def
        copyNativeAddons_standalone_def createLauncher_def prepare_standalone_def
        ensureBundle_standalone_def host_def world_old_package_def eval_simps)
  then have run: "script_standalone ?e [''linux-x64''] world_old_package = (Ok (), ?w')"
    by (metis prod.collapse)
  have note1: "node_at (files ?w1) [''dist-standalone'', ''gsharp-linux-x64'', ''notes.txt'']
      = Some (File ''keep'' 420)"
    by (simp add: world_old_package_def node_at_def)
  have old: "node_at (files ?w1) [''dist-standalone'', ''gsharp-linux-x64'', ''gsharp'']
      = Some (File ''old launcher'' 493)"
    by (simp add: world_old_package_def node_at_def)
  have unwritten: "[''dist-standalone'', ''gsharp-linux-x64'', ''notes.txt'']
      \<notin> set (write_targets (new_events ?w1 ?w'))"
    by (simp add: script_standalone_def select_standalone_def buildPackage_def
        copyNativeAddons_standalone_def createLauncher_def prepare_standalone_def
        ensureBundle_standalone_def host_def world_old_package_def eval_simps)
  have launcher: "node_at (files ?w') [''dist-standalone'', ''gsharp-linux-x64'', ''gsharp'']
      = Some (File shContent 493)"
    by (simp add: script_standalone_def select_standalone_def buildPackage_def
        copyNativeAddons_standalone_def createLauncher_def prepare_standalone_def
        ensureBundle_standalone_def host_def world_old_package_def eval_simps)
  from standalone_keeps [OF b run note1] unwritten
  have "node_at (files ?w') [''dist-standalone'', ''gsharp-linux-x64'', ''notes.txt'']
      = Some (File ''keep'' 420)"
    by blast
  with b ok launcher show ?thesis
    by (simp add: world_old_package_def node_at_def)
qed

section \<open>The entries of a package root\<close>




end
